theory Spec2Isabelle
  imports Complex_Main
begin

section \<open>Tensors and the library operations the notebook calls\<close>

text \<open>
  The notebook \<^verbatim>\<open>lab02/text-02-attention.ipynb\<close> computes on PyTorch tensors of
  32-bit floats. A tensor is modelled by the nested list of its entries, and a float by a
  real number: rounding, overflow and NaN are not represented. The extents are read off
  the lists, so the theorems below speak about tensors all of whose extents are positive
  (\<open>has_shape3\<close>); a nested list cannot record the extents to the right of an empty axis.
  Every exception the code can raise on such tensors is a value \<open>Inl e\<close>.
\<close>

type_synonym vec = "real list"
type_synonym matrix = "real list list"
type_synonym tensor3 = "real list list list"

text \<open>
  The exceptions of the model. \<open>DimensionMismatch\<close> stands for the \<^verbatim>\<open>RuntimeError\<close>
  PyTorch raises when extents do not fit. \<open>NotANumber\<close> is no exception: it stands for
  a float division by zero, whose results (NaN, infinities) are no real numbers.
\<close>

datatype failure =
  DimensionMismatch | TypeError | IndexError | ZeroDivisionError | ValueError | AttributeError
| NotANumber

type_synonym 'a result = "failure + 'a"

text \<open>\<^verbatim>\<open>t.shape\<close> of a two- and of a three-dimensional tensor.\<close>

fun shape2 :: "matrix \<Rightarrow> nat \<times> nat" where
  "shape2 [] = (0, 0)"
| "shape2 (r # rs) = (Suc (length rs), length r)"

fun shape3 :: "tensor3 \<Rightarrow> nat \<times> nat \<times> nat" where
  "shape3 [] = (0, 0, 0)"
| "shape3 (m # ms) = (Suc (length ms), shape2 m)"

text \<open>The nested list \<open>t\<close> is a tensor of shape \<open>(b, n, d)\<close> with positive extents.\<close>

definition has_shape3 :: "nat \<times> nat \<times> nat \<Rightarrow> tensor3 \<Rightarrow> bool" where
  "has_shape3 s t \<longleftrightarrow>
     (case s of (b, n, d) \<Rightarrow>
        0 < b \<and> 0 < n \<and> 0 < d \<and> length t = b \<and>
        (\<forall>m \<in> set t. length m = n \<and> (\<forall>r \<in> set m. length r = d)))"

text \<open>The matrix of shape \<open>(n, d)\<close> with entries \<open>f j c\<close>, and the tensor of shape
  \<open>(b, n, d)\<close> whose entry at \<open>(i, j, c)\<close> is \<open>f i j c\<close>.\<close>

definition tab2 :: "nat \<Rightarrow> nat \<Rightarrow> (nat \<Rightarrow> nat \<Rightarrow> real) \<Rightarrow> matrix" where
  "tab2 n d f = map (\<lambda>j. map (\<lambda>c. f j c) [0..<d]) [0..<n]"

definition tab3 :: "nat \<Rightarrow> nat \<Rightarrow> nat \<Rightarrow> (nat \<Rightarrow> nat \<Rightarrow> nat \<Rightarrow> real) \<Rightarrow> tensor3" where
  "tab3 b n d f = map (\<lambda>i. tab2 n d (f i)) [0..<b]"

text \<open>\<^verbatim>\<open>t.transpose(-2, -1)\<close>: every matrix of the batch is transposed.\<close>

definition mtranspose :: "matrix \<Rightarrow> matrix" where
  "mtranspose A = (case A of [] \<Rightarrow> [] | r # _ \<Rightarrow> map (\<lambda>j. map (\<lambda>row. row ! j) A) [0..<length r])"

definition transpose_last :: "tensor3 \<Rightarrow> tensor3" where
  "transpose_last t = map mtranspose t"

text \<open>
  \<^verbatim>\<open>torch.matmul\<close> on two three-dimensional tensors: the matrix product of the last two
  axes, the batch axis broadcast when one of the two batches has extent 1; the inner
  extents must agree.
\<close>

definition dot :: "vec \<Rightarrow> vec \<Rightarrow> real" where
  "dot u v = sum_list (map2 (*) u v)"

definition mat_mul :: "matrix \<Rightarrow> matrix \<Rightarrow> matrix" where
  "mat_mul A B = map (\<lambda>row. map (\<lambda>col. dot row col) (mtranspose B)) A"

definition matmul :: "tensor3 \<Rightarrow> tensor3 \<Rightarrow> tensor3 result" where
  "matmul A B =
     (case (shape3 A, shape3 B) of
        ((ba, n, m), (bb, m', p)) \<Rightarrow>
          if m \<noteq> m' then Inl DimensionMismatch
          else if ba = bb then Inr (map2 mat_mul A B)
          else if ba = 1 then Inr (map (mat_mul (hd A)) B)
          else if bb = 1 then Inr (map (\<lambda>a. mat_mul a (hd B)) A)
          else Inl DimensionMismatch)"

text \<open>Division of every entry by a scalar tensor.\<close>

definition div_scalar :: "tensor3 \<Rightarrow> real \<Rightarrow> tensor3 result" where
  "div_scalar t s = (if s = 0 then Inl NotANumber else Inr (map (map (map (\<lambda>x. x / s))) t))"

text \<open>
  \<^verbatim>\<open>a + b\<close> on two three-dimensional tensors, with broadcasting: on each axis the
  extents are equal or one of them is 1, and an axis of extent 1 is repeated.
\<close>

definition broadcastable :: "nat \<Rightarrow> nat \<Rightarrow> bool" where
  "broadcastable a b \<longleftrightarrow> a = b \<or> a = 1 \<or> b = 1"

definition bzip :: "('a \<Rightarrow> 'b \<Rightarrow> 'c) \<Rightarrow> 'a list \<Rightarrow> 'b list \<Rightarrow> 'c list" where
  "bzip f xs ys =
     (if length xs = length ys then map2 f xs ys
      else if length xs = 1 then map (f (hd xs)) ys
      else map (\<lambda>x. f x (hd ys)) xs)"

definition add3 :: "tensor3 \<Rightarrow> tensor3 \<Rightarrow> tensor3 result" where
  "add3 A B =
     (case (shape3 A, shape3 B) of
        ((a1, a2, a3), (b1, b2, b3)) \<Rightarrow>
          if broadcastable a1 b1 \<and> broadcastable a2 b2 \<and> broadcastable a3 b3
          then Inr (bzip (bzip (bzip (+))) A B)
          else Inl DimensionMismatch)"

text \<open>\<^verbatim>\<open>torch.softmax(t, dim=-1)\<close>.\<close>

definition softmax_row :: "vec \<Rightarrow> vec" where
  "softmax_row r = map (\<lambda>x. exp x / sum_list (map exp r)) r"

definition softmax_last :: "tensor3 \<Rightarrow> tensor3" where
  "softmax_last t = map (map softmax_row) t"

section \<open>The attention unit\<close>

text \<open>
  \<^verbatim>\<open>ScaledDotProductAttention.__init__(seq_len, d_k, other_positional_encodings_present)\<close>
  stores its three arguments and draws \<open>rel_layer\<close> with
  \<^verbatim>\<open>torch.randn(1, seq_len, seq_len, requires_grad=True)\<close>. The draw is the
  argument \<open>g\<close>: \<open>g i j\<close> is the value drawn for entry \<open>(0, i, j)\<close>.
\<close>

record ScaledDotProductAttention =
  d_k :: nat
  seq_len :: nat
  other_positional_encodings_present :: bool
  rel_layer :: tensor3

definition ScaledDotProductAttention_init ::
  "nat \<Rightarrow> nat \<Rightarrow> bool \<Rightarrow> (nat \<Rightarrow> nat \<Rightarrow> real) \<Rightarrow> ScaledDotProductAttention" where
  "ScaledDotProductAttention_init sl dk present g =
     \<lparr>d_k = dk, seq_len = sl, other_positional_encodings_present = present,
      rel_layer = tab3 1 sl sl (\<lambda>_. g)\<rparr>"

text \<open>
  \<^verbatim>\<open>ScaledDotProductAttention.forward(query, key, value)\<close>:
  \<^verbatim>\<open>
  scores = torch.matmul(query, key.transpose(-2, -1)) / torch.sqrt(torch.tensor(self.d_k, ...))
  if not self.other_positional_encodings_present:
      scores = scores + self.rel_layer
  attention_weights = torch.softmax(scores, dim=-1)
  output = torch.matmul(attention_weights, value)
  return output, attention_weights
  \<close>
\<close>

definition ScaledDotProductAttention_forward ::
  "ScaledDotProductAttention \<Rightarrow> tensor3 \<Rightarrow> tensor3 \<Rightarrow> tensor3 \<Rightarrow> (tensor3 \<times> tensor3) result" where
  "ScaledDotProductAttention_forward self query key value =
     (case matmul query (transpose_last key) of
        Inl e \<Rightarrow> Inl e
      | Inr qk \<Rightarrow>
          (case div_scalar qk (sqrt (real (d_k self))) of
             Inl e \<Rightarrow> Inl e
           | Inr scaled \<Rightarrow>
               (case (if \<not> other_positional_encodings_present self
                      then add3 scaled (rel_layer self) else Inr scaled) of
                  Inl e \<Rightarrow> Inl e
                | Inr scores \<Rightarrow>
                    (case matmul (softmax_last scores) value of
                       Inl e \<Rightarrow> Inl e
                     | Inr output \<Rightarrow> Inr (output, softmax_last scores)))))"

text \<open>
  A call \<^verbatim>\<open>unit(*args, **kwargs)\<close> goes through \<^verbatim>\<open>nn.Module.__call__\<close> to
  \<^verbatim>\<open>forward(self, query, key, value)\<close>. Python binds the positional arguments to the
  parameters in order and the keyword arguments by name, and raises \<^verbatim>\<open>TypeError\<close> on
  a surplus positional argument, an unknown keyword, a parameter given twice and a
  parameter left without a value.
\<close>

definition bind_arguments ::
  "string list \<Rightarrow> 'a list \<Rightarrow> (string \<times> 'a) list \<Rightarrow> (string \<rightharpoonup> 'a) result" where
  "bind_arguments params args kwargs =
     (let bound = zip params args @ kwargs
      in if length args \<le> length params \<and> distinct (map fst bound) \<and>
            set (map fst bound) = set params
         then Inr (map_of bound) else Inl TypeError)"

definition ScaledDotProductAttention_call ::
  "ScaledDotProductAttention \<Rightarrow> tensor3 list \<Rightarrow> (string \<times> tensor3) list \<Rightarrow>
     (tensor3 \<times> tensor3) result" where
  "ScaledDotProductAttention_call self args kwargs =
     (case bind_arguments [''query'', ''key'', ''value''] args kwargs of
        Inl e \<Rightarrow> Inl e
      | Inr env \<Rightarrow>
          (case (env ''query'', env ''key'', env ''value'') of
             (Some query, Some key, Some value) \<Rightarrow>
               ScaledDotProductAttention_forward self query key value
           | _ \<Rightarrow> Inl TypeError))"

subsection \<open>The attention formula, entry by entry\<close>

text \<open>
  The formula of the specification, written from its words: the raw score of query
  position \<open>a\<close> and key position \<open>c\<close> in batch element \<open>i\<close> is the dot product of the two
  feature vectors, divided by the square root of the feature dimension of the query; the
  weights are the softmax of the scores over the key axis; the output is the
  weight-matrix times the values.
\<close>

definition feature_dim :: "tensor3 \<Rightarrow> nat" where
  "feature_dim t = snd (snd (shape3 t))"

definition sequence_length :: "tensor3 \<Rightarrow> nat" where
  "sequence_length t = fst (snd (shape3 t))"

definition spec_score :: "tensor3 \<Rightarrow> tensor3 \<Rightarrow> nat \<Rightarrow> nat \<Rightarrow> nat \<Rightarrow> real" where
  "spec_score q k i a c =
     (\<Sum>x<feature_dim q. q ! i ! a ! x * k ! i ! c ! x) / sqrt (real (feature_dim q))"

definition spec_weight :: "tensor3 \<Rightarrow> tensor3 \<Rightarrow> nat \<Rightarrow> nat \<Rightarrow> nat \<Rightarrow> real" where
  "spec_weight q k i a c =
     exp (spec_score q k i a c) / (\<Sum>j<sequence_length k. exp (spec_score q k i a j))"

definition spec_output :: "tensor3 \<Rightarrow> tensor3 \<Rightarrow> tensor3 \<Rightarrow> nat \<Rightarrow> nat \<Rightarrow> nat \<Rightarrow> real" where
  "spec_output q k v i a c = (\<Sum>j<sequence_length k. spec_weight q k i a j * v ! i ! j ! c)"

text \<open>
  The same formula with the divisor the code uses: the square root of the attribute
  \<open>d_k\<close> the unit was constructed with.
\<close>

definition unit_score :: "nat \<Rightarrow> tensor3 \<Rightarrow> tensor3 \<Rightarrow> nat \<Rightarrow> nat \<Rightarrow> nat \<Rightarrow> real" where
  "unit_score dk q k i a c =
     (\<Sum>x<feature_dim q. q ! i ! a ! x * k ! i ! c ! x) / sqrt (real dk)"

definition unit_weight :: "nat \<Rightarrow> tensor3 \<Rightarrow> tensor3 \<Rightarrow> nat \<Rightarrow> nat \<Rightarrow> nat \<Rightarrow> real" where
  "unit_weight dk q k i a c =
     exp (unit_score dk q k i a c) / (\<Sum>j<sequence_length k. exp (unit_score dk q k i a j))"

definition unit_output :: "nat \<Rightarrow> tensor3 \<Rightarrow> tensor3 \<Rightarrow> tensor3 \<Rightarrow> nat \<Rightarrow> nat \<Rightarrow> nat \<Rightarrow> real" where
  "unit_output dk q k v i a c = (\<Sum>j<sequence_length k. unit_weight dk q k i a j * v ! i ! j ! c)"

text \<open>
  The same three quantities for an arbitrary divisor \<open>s\<close> and an additive bias on the
  scores; they describe what \<open>ScaledDotProductAttention_forward\<close> computes in both
  configurations of the unit.
\<close>

definition att_score ::
  "real \<Rightarrow> (nat \<Rightarrow> nat \<Rightarrow> real) \<Rightarrow> tensor3 \<Rightarrow> tensor3 \<Rightarrow> nat \<Rightarrow> nat \<Rightarrow> nat \<Rightarrow> real" where
  "att_score s bias q k i a c =
     (\<Sum>x<length (q ! i ! a). q ! i ! a ! x * k ! i ! c ! x) / s + bias a c"

definition att_weight ::
  "real \<Rightarrow> (nat \<Rightarrow> nat \<Rightarrow> real) \<Rightarrow> tensor3 \<Rightarrow> tensor3 \<Rightarrow> nat \<Rightarrow> nat \<Rightarrow> nat \<Rightarrow> real" where
  "att_weight s bias q k i a c =
     exp (att_score s bias q k i a c) / (\<Sum>j<length (k ! i). exp (att_score s bias q k i a j))"

definition att_output ::
  "real \<Rightarrow> (nat \<Rightarrow> nat \<Rightarrow> real) \<Rightarrow> tensor3 \<Rightarrow> tensor3 \<Rightarrow> tensor3 \<Rightarrow> nat \<Rightarrow> nat \<Rightarrow> nat \<Rightarrow> real" where
  "att_output s bias q k v i a c =
     (\<Sum>j<length (v ! i). att_weight s bias q k i a j * v ! i ! j ! c)"

subsection \<open>Permutations of the sequence axis\<close>

text \<open>
  A permutation of \<open>n\<close> positions is the list of its images; \<open>permute_seq \<pi> t\<close> is
  \<^verbatim>\<open>t[:, \<pi>]\<close> (position \<open>a\<close> of the result holds position \<open>\<pi> ! a\<close> of \<open>t\<close>) and
  \<open>permute_keys \<pi> t\<close> is \<^verbatim>\<open>t[:, :, \<pi>]\<close>.
\<close>

definition is_permutation :: "nat list \<Rightarrow> nat \<Rightarrow> bool" where
  "is_permutation \<pi> n \<longleftrightarrow> length \<pi> = n \<and> set \<pi> = {0..<n}"

definition permute_seq :: "nat list \<Rightarrow> tensor3 \<Rightarrow> tensor3" where
  "permute_seq \<pi> t = map (\<lambda>m. map (\<lambda>a. m ! a) \<pi>) t"

definition permute_keys :: "nat list \<Rightarrow> tensor3 \<Rightarrow> tensor3" where
  "permute_keys \<pi> t = map (map (\<lambda>r. map (\<lambda>c. r ! c) \<pi>)) t"

section \<open>The layers of \<^verbatim>\<open>torch.nn\<close> the model is built from\<close>

text \<open>
  \<^verbatim>\<open>nn.Linear(in_features, out_features)\<close>: a weight of shape
  \<open>(out_features, in_features)\<close> and a bias of shape \<open>(out_features)\<close>, drawn at random
  (the draws are arguments); \<open>forward\<close> computes \<open>x W\<^sup>T + b\<close> on the last axis.
\<close>

record Linear =
  in_features :: nat
  out_features :: nat
  weight :: matrix
  bias :: vec

definition Linear_init :: "nat \<Rightarrow> nat \<Rightarrow> (nat \<Rightarrow> nat \<Rightarrow> real) \<Rightarrow> (nat \<Rightarrow> real) \<Rightarrow> Linear" where
  "Linear_init n_in n_out w_draw b_draw =
     \<lparr>in_features = n_in, out_features = n_out,
      weight = tab2 n_out n_in w_draw, bias = map b_draw [0..<n_out]\<rparr>"

definition linear_row :: "Linear \<Rightarrow> vec \<Rightarrow> vec" where
  "linear_row self x = map2 (\<lambda>w b. dot x w + b) (weight self) (bias self)"

definition Linear_forward2 :: "Linear \<Rightarrow> matrix \<Rightarrow> matrix result" where
  "Linear_forward2 self x =
     (if snd (shape2 x) \<noteq> in_features self then Inl DimensionMismatch
      else Inr (map (linear_row self) x))"

definition Linear_forward3 :: "Linear \<Rightarrow> tensor3 \<Rightarrow> tensor3 result" where
  "Linear_forward3 self x =
     (if snd (snd (shape3 x)) \<noteq> in_features self then Inl DimensionMismatch
      else Inr (map (map (linear_row self)) x))"

text \<open>
  \<^verbatim>\<open>nn.LayerNorm(d_model)\<close>: weight ones, bias zeros, \<open>eps = 1e-5\<close>; \<open>forward\<close>
  normalises every vector of the last axis with its mean and its (biased) variance. The
  attributes \<^verbatim>\<open>weight\<close> and \<^verbatim>\<open>bias\<close> are the fields \<open>ln_weight\<close> and \<open>ln_bias\<close>.
\<close>

record LayerNorm =
  normalized_shape :: nat
  eps :: real
  ln_weight :: vec
  ln_bias :: vec

definition LayerNorm_init :: "nat \<Rightarrow> LayerNorm" where
  "LayerNorm_init d =
     \<lparr>normalized_shape = d, eps = 1 / 100000, ln_weight = replicate d 1, ln_bias = replicate d 0\<rparr>"

definition layer_norm_row :: "LayerNorm \<Rightarrow> vec \<Rightarrow> vec" where
  "layer_norm_row self x =
     (let mean = sum_list x / real (length x);
          var = sum_list (map (\<lambda>v. (v - mean)\<^sup>2) x) / real (length x)
      in map (\<lambda>(v, w, b). (v - mean) / sqrt (var + eps self) * w + b)
           (zip x (zip (ln_weight self) (ln_bias self))))"

definition LayerNorm_forward :: "LayerNorm \<Rightarrow> tensor3 \<Rightarrow> tensor3 result" where
  "LayerNorm_forward self x =
     (if snd (snd (shape3 x)) \<noteq> normalized_shape self then Inl DimensionMismatch
      else Inr (map (map (layer_norm_row self)) x))"

text \<open>
  \<^verbatim>\<open>nn.Dropout(p)\<close>: the constructor raises \<^verbatim>\<open>ValueError\<close> unless \<open>0 \<le> p \<le> 1\<close>.
  A new module is in training mode, where \<open>forward\<close> zeroes the entries a random draw
  does not keep and divides the others by \<open>1 - p\<close>; in evaluation mode it is the identity.
  The draw is the field \<open>keep\<close>.
\<close>

record Dropout =
  drop_p :: real
  training :: bool
  keep :: "nat \<Rightarrow> nat \<Rightarrow> nat \<Rightarrow> bool"

definition Dropout_init :: "real \<Rightarrow> (nat \<Rightarrow> nat \<Rightarrow> nat \<Rightarrow> bool) \<Rightarrow> Dropout result" where
  "Dropout_init pr k =
     (if pr < 0 \<or> 1 < pr then Inl ValueError
      else Inr \<lparr>drop_p = pr, training = True, keep = k\<rparr>)"

definition Dropout_forward :: "Dropout \<Rightarrow> tensor3 \<Rightarrow> tensor3" where
  "Dropout_forward self x =
     (if training self
      then map (\<lambda>(i, m). map (\<lambda>(a, r). map (\<lambda>(c, v).
               if keep self i a c then v / (1 - drop_p self) else 0)
             (enumerate 0 r)) (enumerate 0 m)) (enumerate 0 x)
      else x)"

section \<open>Modules, parameters and buffers\<close>

text \<open>
  An \<^verbatim>\<open>nn.Module\<close> files every value assigned to one of its attributes:
  \<^verbatim>\<open>__setattr__\<close> puts an \<^verbatim>\<open>nn.Parameter\<close> under the parameters and an
  \<^verbatim>\<open>nn.Module\<close> under the submodules, and leaves any other value, a plain tensor
  included, an ordinary attribute; \<^verbatim>\<open>register_buffer\<close> puts a tensor under the
  buffers. A module is seen here as the list of the attributes its constructor assigns,
  each with its kind. The items of an \<^verbatim>\<open>nn.ModuleList\<close> and of an
  \<^verbatim>\<open>nn.Sequential\<close> are submodules named by their index. A plain tensor carries
  its \<^verbatim>\<open>requires_grad\<close> flag.
\<close>

datatype tensor_value = T1 vec | T2 matrix | T3 tensor3

datatype key = Name string | Index nat

datatype attr =
  Parameter tensor_value
| Buffer tensor_value
| PlainTensor tensor_value bool
| PlainObject
| Submodule "(key \<times> attr) list"

text \<open>
  \<^verbatim>\<open>named_parameters()\<close>: the parameters of the module itself, then those of its
  submodules, each under its path. \<^verbatim>\<open>state_dict()\<close> is the saved state: the
  parameters and the buffers.
\<close>

fun named_parameters :: "attr \<Rightarrow> (key list \<times> tensor_value) list" where
  "named_parameters (Submodule attrs) =
     concat (map (\<lambda>(k, a). case a of Parameter t \<Rightarrow> [([k], t)] | _ \<Rightarrow> []) attrs) @
     concat (map (\<lambda>(k, a). case a of
                    Submodule sub \<Rightarrow> map (\<lambda>(path, t). (k # path, t)) (named_parameters a)
                  | _ \<Rightarrow> []) attrs)"
| "named_parameters _ = []"

fun state_dict :: "attr \<Rightarrow> (key list \<times> tensor_value) list" where
  "state_dict (Submodule attrs) =
     concat (map (\<lambda>(k, a). case a of
                    Parameter t \<Rightarrow> [([k], t)] | Buffer t \<Rightarrow> [([k], t)] | _ \<Rightarrow> []) attrs) @
     concat (map (\<lambda>(k, a). case a of
                    Submodule sub \<Rightarrow> map (\<lambda>(path, t). (k # path, t)) (state_dict a)
                  | _ \<Rightarrow> []) attrs)"
| "state_dict _ = []"

text \<open>The attribute a dotted path leads to, as \<^verbatim>\<open>model.a.b.c\<close> reads it.\<close>

fun resolve :: "key list \<Rightarrow> attr \<Rightarrow> attr option" where
  "resolve [] a = Some a"
| "resolve (k # ks) (Submodule attrs) =
     (case map_of attrs k of None \<Rightarrow> None | Some a \<Rightarrow> resolve ks a)"
| "resolve (k # ks) _ = None"

text \<open>
  A training step of an optimizer built from \<^verbatim>\<open>model.parameters()\<close>: every
  parameter is replaced by a new value, which may depend on its path and its old value;
  nothing else is written.
\<close>

fun optimizer_step ::
  "(key list \<Rightarrow> tensor_value \<Rightarrow> tensor_value) \<Rightarrow> key list \<Rightarrow> attr \<Rightarrow> attr" where
  "optimizer_step upd path (Parameter t) = Parameter (upd path t)"
| "optimizer_step upd path (Submodule attrs) =
     Submodule (map (\<lambda>(k, a). (k, optimizer_step upd (path @ [k]) a)) attrs)"
| "optimizer_step upd path a = a"

section \<open>Attention head, encoder block and stacked model\<close>

text \<open>
  The notebook is an exercise template: wherever the student has to fill code in it has
  the expression \<^verbatim>\<open>...\<close>, which evaluates to the object \<^verbatim>\<open>Ellipsis\<close>. A value
  of the forward passes is therefore a tensor or that object.
\<close>

datatype pyval = Ellipsis | Tensor tensor3

text \<open>
  \<^verbatim>\<open>AttentionHead.__init__(d_model, seq_len, other_positional_encodings_present)\<close>:
  \<^verbatim>\<open>
  self.d_k = d_model
  self.seq_len = seq_len
  self.query_layer = ...
  self.key_layer = ...
  self.value_layer = ...
  self.scaled_dot_attention = ScaledDotProductAttention(self.seq_len, self.d_k, other_positional_encodings_present)
  self.fc_out = ...
  \<close>
  The fields \<open>head_d_k\<close>, \<open>head_seq_len\<close> and \<open>head_fc_out\<close> are the attributes
  \<^verbatim>\<open>d_k\<close>, \<^verbatim>\<open>seq_len\<close> and \<^verbatim>\<open>fc_out\<close>.
\<close>

record AttentionHead =
  head_d_k :: nat
  head_seq_len :: nat
  query_layer :: pyval
  key_layer :: pyval
  value_layer :: pyval
  scaled_dot_attention :: ScaledDotProductAttention
  head_fc_out :: pyval

definition AttentionHead_init ::
  "nat \<Rightarrow> nat \<Rightarrow> bool \<Rightarrow> (nat \<Rightarrow> nat \<Rightarrow> real) \<Rightarrow> AttentionHead" where
  "AttentionHead_init d_model sl present g =
     \<lparr>head_d_k = d_model, head_seq_len = sl,
      query_layer = Ellipsis, key_layer = Ellipsis, value_layer = Ellipsis,
      scaled_dot_attention = ScaledDotProductAttention_init sl d_model present g,
      head_fc_out = Ellipsis\<rparr>"

text \<open>
  The statement \<^verbatim>\<open>a, b = ...\<close> unpacks the object \<^verbatim>\<open>Ellipsis\<close>, which is not
  iterable: it raises \<^verbatim>\<open>TypeError\<close> and binds nothing.
\<close>

definition unpack_Ellipsis :: "('a \<times> 'b) result" where
  "unpack_Ellipsis = Inl TypeError"

text \<open>
  \<^verbatim>\<open>AttentionHead.forward(query, key, value)\<close>:
  \<^verbatim>\<open>
  Q = ...
  K = ...
  V = ...
  attention_output, attention_weights = ...
  attention_output = ...
  output = ...
  return output, attention_weights
  \<close>
\<close>

definition AttentionHead_forward ::
  "AttentionHead \<Rightarrow> pyval \<Rightarrow> pyval \<Rightarrow> pyval \<Rightarrow> (pyval \<times> pyval) result" where
  "AttentionHead_forward self query key value =
     (let Q = Ellipsis; K = Ellipsis; V = Ellipsis
      in case unpack_Ellipsis of
           Inl e \<Rightarrow> Inl e
         | Inr (attention_output :: pyval, attention_weights) \<Rightarrow>
             (let attention_output = Ellipsis; output = Ellipsis
              in Inr (output, attention_weights)))"

text \<open>
  The library operations of the block on a value that may be \<^verbatim>\<open>Ellipsis\<close>: each of
  them raises \<^verbatim>\<open>TypeError\<close> on that object.
\<close>

definition py_dropout :: "Dropout \<Rightarrow> pyval \<Rightarrow> pyval result" where
  "py_dropout dr v =
     (case v of Tensor t \<Rightarrow> Inr (Tensor (Dropout_forward dr t)) | Ellipsis \<Rightarrow> Inl TypeError)"

definition py_add :: "pyval \<Rightarrow> pyval \<Rightarrow> pyval result" where
  "py_add u v =
     (case (u, v) of
        (Tensor s, Tensor t) \<Rightarrow> map_sum id Tensor (add3 s t)
      | _ \<Rightarrow> Inl TypeError)"

definition py_layer_norm :: "LayerNorm \<Rightarrow> pyval \<Rightarrow> pyval result" where
  "py_layer_norm nm v =
     (case v of Tensor t \<Rightarrow> map_sum id Tensor (LayerNorm_forward nm t) | Ellipsis \<Rightarrow> Inl TypeError)"

text \<open>
  \<^verbatim>\<open>TransformerEncoderBlock.__init__(d_model, dim_feedforward, seq_len,
  other_positional_encodings_present, dropout)\<close>:
  \<^verbatim>\<open>
  self.attention = AttentionHead(d_model, seq_len, other_positional_encodings_present)
  self.norm1 = nn.LayerNorm(d_model)
  self.norm2 = ...
  self.ffn = nn.Sequential(nn.Linear(d_model, dim_feedforward), nn.ReLU(),
                           nn.Linear(dim_feedforward, d_model))
  self.dropout = nn.Dropout(dropout)
  \<close>
  The fields \<open>ffn_0\<close> and \<open>ffn_2\<close> are the two linear layers of \<^verbatim>\<open>self.ffn\<close>
  (its item 1, the ReLU, has no state). The random draws of one block are a record.
\<close>

record block_draws =
  rel_draw :: "nat \<Rightarrow> nat \<Rightarrow> real"
  ffn_0_w :: "nat \<Rightarrow> nat \<Rightarrow> real"
  ffn_0_b :: "nat \<Rightarrow> real"
  ffn_2_w :: "nat \<Rightarrow> nat \<Rightarrow> real"
  ffn_2_b :: "nat \<Rightarrow> real"
  keep_draw :: "nat \<Rightarrow> nat \<Rightarrow> nat \<Rightarrow> bool"

record TransformerEncoderBlock =
  attention :: AttentionHead
  norm1 :: LayerNorm
  norm2 :: pyval
  ffn_0 :: Linear
  ffn_2 :: Linear
  dropout :: Dropout

definition TransformerEncoderBlock_init ::
  "nat \<Rightarrow> nat \<Rightarrow> nat \<Rightarrow> bool \<Rightarrow> real \<Rightarrow> block_draws \<Rightarrow> TransformerEncoderBlock result" where
  "TransformerEncoderBlock_init d_model dim_feedforward sl present pr dw =
     (case Dropout_init pr (keep_draw dw) of
        Inl e \<Rightarrow> Inl e
      | Inr dr \<Rightarrow>
          Inr \<lparr>attention = AttentionHead_init d_model sl present (rel_draw dw),
               norm1 = LayerNorm_init d_model,
               norm2 = Ellipsis,
               ffn_0 = Linear_init d_model dim_feedforward (ffn_0_w dw) (ffn_0_b dw),
               ffn_2 = Linear_init dim_feedforward d_model (ffn_2_w dw) (ffn_2_b dw),
               dropout = dr\<rparr>)"

text \<open>
  \<^verbatim>\<open>TransformerEncoderBlock.forward(x)\<close>:
  \<^verbatim>\<open>
  attention_output, attention_weights = self.attention(x, x, x)
  x = self.norm1(x + self.dropout(attention_output))
  ffn_output = ...
  output = ...
  return output, attention_weights
  \<close>
\<close>

definition TransformerEncoderBlock_forward ::
  "TransformerEncoderBlock \<Rightarrow> pyval \<Rightarrow> (pyval \<times> pyval) result" where
  "TransformerEncoderBlock_forward self x =
     (case AttentionHead_forward (attention self) x x x of
        Inl e \<Rightarrow> Inl e
      | Inr (attention_output, attention_weights) \<Rightarrow>
          (case py_dropout (dropout self) attention_output of
             Inl e \<Rightarrow> Inl e
           | Inr dropped \<Rightarrow>
               (case py_add x dropped of
                  Inl e \<Rightarrow> Inl e
                | Inr s \<Rightarrow>
                    (case py_layer_norm (norm1 self) s of
                       Inl e \<Rightarrow> Inl e
                     | Inr x' \<Rightarrow>
                         (let ffn_output = Ellipsis; output = Ellipsis
                          in Inr (output, attention_weights))))))"

text \<open>
  A positional-encoding collaborator is any module: the model calls it on the embedded
  input. \<open>module_call\<close> is its \<open>forward\<close>, \<open>module_attrs\<close> its attributes.
\<close>

record module_object =
  module_call :: "tensor3 \<Rightarrow> tensor3 result"
  module_attrs :: "(key \<times> attr) list"

text \<open>
  \<^verbatim>\<open>Transformer.__init__(input_size, d_model, dim_feedforward, num_layers, seq_len,
  positional_encoding=None, dropout=0.1, max_len=5000)\<close>:
  \<^verbatim>\<open>
  self.positional_encoding = positional_encoding
  self.embedding = nn.Linear(input_size, d_model)
  if self.positional_encoding is not None:
      self.pos_encoder = self.positional_encoding(d_model, max_len)
  self.encoder_layers = nn.ModuleList(
      [TransformerEncoderBlock(d_model, dim_feedforward, seq_len,
                               False if positional_encoding is None else True, dropout)
       for _ in range(num_layers)])
  self.fc_out = nn.Linear(d_model, 1)
  \<close>
  \<open>positional_encoding\<close> is \<open>None\<close> or a constructor, which may raise. The attribute
  \<^verbatim>\<open>pos_encoder\<close> exists only when a constructor was given.
\<close>

record model_draws =
  embedding_w :: "nat \<Rightarrow> nat \<Rightarrow> real"
  embedding_b :: "nat \<Rightarrow> real"
  layer_draws :: "nat \<Rightarrow> block_draws"
  fc_out_w :: "nat \<Rightarrow> nat \<Rightarrow> real"
  fc_out_b :: "nat \<Rightarrow> real"

record Transformer =
  positional_encoding :: "(nat \<Rightarrow> nat \<Rightarrow> module_object result) option"
  embedding :: Linear
  pos_encoder :: "module_object option"
  encoder_layers :: "TransformerEncoderBlock list"
  fc_out :: Linear

fun collect :: "'a result list \<Rightarrow> 'a list result" where
  "collect [] = Inr []"
| "collect (r # rs) =
     (case r of
        Inl e \<Rightarrow> Inl e
      | Inr x \<Rightarrow> (case collect rs of Inl e \<Rightarrow> Inl e | Inr xs \<Rightarrow> Inr (x # xs)))"

definition Transformer_init ::
  "nat \<Rightarrow> nat \<Rightarrow> nat \<Rightarrow> nat \<Rightarrow> nat \<Rightarrow> (nat \<Rightarrow> nat \<Rightarrow> module_object result) option \<Rightarrow>
     real \<Rightarrow> nat \<Rightarrow> model_draws \<Rightarrow> Transformer result" where
  "Transformer_init input_size d_model dim_feedforward num_layers sl pos_enc pr max_len dw =
     (case (case pos_enc of
              None \<Rightarrow> Inr None
            | Some ctor \<Rightarrow> map_sum id Some (ctor d_model max_len)) of
        Inl e \<Rightarrow> Inl e
      | Inr encoder \<Rightarrow>
          (case collect
                  (map (\<lambda>i. TransformerEncoderBlock_init d_model dim_feedforward sl
                              (if pos_enc = None then False else True) pr (layer_draws dw i))
                     [0..<num_layers]) of
             Inl e \<Rightarrow> Inl e
           | Inr layers \<Rightarrow>
               Inr \<lparr>positional_encoding = pos_enc,
                    embedding = Linear_init input_size d_model (embedding_w dw) (embedding_b dw),
                    pos_encoder = encoder,
                    encoder_layers = layers,
                    fc_out = Linear_init d_model 1 (fc_out_w dw) (fc_out_b dw)\<rparr>))"

text \<open>
  \<^verbatim>\<open>Transformer.forward(x)\<close>:
  \<^verbatim>\<open>
  x = self.embedding(x)
  x = self.pos_encoder(x) if self.positional_encoding is not None else x
  all_attention_weights = []
  for layer in self.encoder_layers:
      x, attention_weights = layer(x)
      all_attention_weights.append(attention_weights)
  output = self.fc_out(x[:, -1])
  return output, all_attention_weights
  \<close>
\<close>

fun encoder_loop ::
  "TransformerEncoderBlock list \<Rightarrow> pyval \<Rightarrow> pyval list \<Rightarrow> (pyval \<times> pyval list) result" where
  "encoder_loop [] x all_attention_weights = Inr (x, all_attention_weights)"
| "encoder_loop (layer # layers) x all_attention_weights =
     (case TransformerEncoderBlock_forward layer x of
        Inl e \<Rightarrow> Inl e
      | Inr (x', attention_weights) \<Rightarrow>
          encoder_loop layers x' (all_attention_weights @ [attention_weights]))"

text \<open>\<^verbatim>\<open>x[:, -1]\<close>: the last position of every batch element.\<close>

definition select_last :: "pyval \<Rightarrow> matrix result" where
  "select_last v =
     (case v of
        Ellipsis \<Rightarrow> Inl TypeError
      | Tensor t \<Rightarrow> (if fst (snd (shape3 t)) = 0 then Inl IndexError else Inr (map last t)))"

definition Transformer_forward ::
  "Transformer \<Rightarrow> tensor3 \<Rightarrow> (matrix \<times> pyval list) result" where
  "Transformer_forward self x =
     (case Linear_forward3 (embedding self) x of
        Inl e \<Rightarrow> Inl e
      | Inr embedded \<Rightarrow>
          (case (case positional_encoding self of
                   None \<Rightarrow> Inr embedded
                 | Some _ \<Rightarrow>
                     (case pos_encoder self of
                        None \<Rightarrow> Inl AttributeError
                      | Some encoder \<Rightarrow> module_call encoder embedded)) of
             Inl e \<Rightarrow> Inl e
           | Inr x0 \<Rightarrow>
               (case encoder_loop (encoder_layers self) (Tensor x0) [] of
                  Inl e \<Rightarrow> Inl e
                | Inr (x', all_attention_weights) \<Rightarrow>
                    (case select_last x' of
                       Inl e \<Rightarrow> Inl e
                     | Inr h \<Rightarrow>
                         (case Linear_forward2 (fc_out self) h of
                            Inl e \<Rightarrow> Inl e
                          | Inr output \<Rightarrow> Inr (output, all_attention_weights))))))"

section \<open>The absolute positional encoding\<close>

text \<open>
  \<^verbatim>\<open>PositionalEncoding.__init__(d_model, max_len=5000)\<close>:
  \<^verbatim>\<open>
  pe = torch.zeros(max_len, d_model)
  position = torch.arange(0, max_len, dtype=torch.float).unsqueeze(1)
  div_term = torch.exp(torch.arange(0, d_model, 2).float() * (-math.log(10000.0) / d_model))
  pe[:, 0::2] = torch.sin(position * div_term)
  pe[:, 1::2] = torch.cos(position * div_term)
  pe = pe.unsqueeze(0).transpose(0, 1)
  self.register_buffer('pe', pe)
  \<close>
  The division by \<open>d_model\<close> is Python's and raises \<^verbatim>\<open>ZeroDivisionError\<close> at 0. The
  second assignment needs as many odd columns as \<open>div_term\<close> has entries, or a single
  entry to broadcast: it fails for an odd \<open>d_model\<close> above 1. The buffer has shape
  \<open>(max_len, 1, d_model)\<close>.
\<close>

record PositionalEncoding =
  pe :: tensor3

definition div_term :: "nat \<Rightarrow> real list" where
  "div_term d_model =
     map (\<lambda>i. exp (real (2 * i) * (- ln 10000 / real d_model))) [0..<(d_model + 1) div 2]"

definition sinusoid_table :: "nat \<Rightarrow> nat \<Rightarrow> matrix" where
  "sinusoid_table d_model max_len =
     tab2 max_len d_model
       (\<lambda>pos c. if even c then sin (real pos * div_term d_model ! (c div 2))
                 else cos (real pos * div_term d_model ! (c div 2)))"

definition PositionalEncoding_init :: "nat \<Rightarrow> nat \<Rightarrow> PositionalEncoding result" where
  "PositionalEncoding_init d_model max_len =
     (if d_model = 0 then Inl ZeroDivisionError
      else if d_model div 2 \<noteq> length (div_term d_model) \<and> length (div_term d_model) \<noteq> 1
      then Inl DimensionMismatch
      else Inr \<lparr>pe = map (\<lambda>row. [row]) (sinusoid_table d_model max_len)\<rparr>)"

text \<open>
  \<^verbatim>\<open>PositionalEncoding.forward(x)\<close>:
  \<^verbatim>\<open>
  return x + self.pe[:x.size(0), :].repeat(1, x.shape[1], 1)
  \<close>
  \<^verbatim>\<open>x.size(0)\<close> is the extent of the first axis of \<open>x\<close>, \<^verbatim>\<open>x.shape[1]\<close> that of
  the second.
\<close>

definition PositionalEncoding_forward :: "PositionalEncoding \<Rightarrow> tensor3 \<Rightarrow> tensor3 result" where
  "PositionalEncoding_forward self x =
     add3 x (map (\<lambda>m. concat (replicate (fst (snd (shape3 x))) m))
               (take (fst (shape3 x)) (pe self)))"

text \<open>
  What the specification says of the collaborator, written from its words: the first
  \<open>seq_len\<close> rows of the table are added to every batch element, row \<open>p\<close> at sequence
  position \<open>p\<close>.
\<close>

definition spec_add_positions :: "matrix \<Rightarrow> tensor3 \<Rightarrow> tensor3" where
  "spec_add_positions table x = map (\<lambda>m. map2 (map2 (+)) m (take (length m) table)) x"

section \<open>The synthetic data set\<close>

text \<open>
  \<^verbatim>\<open>TimeSeriesDataset.__init__(seq_len, num_samples)\<close>:
  \<^verbatim>\<open>
  val = 3
  initial_jump = 5
  self.seq_len = seq_len
  self.data = []
  for _ in range(num_samples):
      time_series = np.zeros(seq_len + 1)
      first_jump = ...
      time_series[first_jump] += ...
      for i in range(first_jump + val, seq_len + 1, val):
          jump = 0 if i % 2 == 1 else initial_jump
          time_series[i] += ...
      self.data.append(time_series)
  \<close>
  An index of the array is the object \<^verbatim>\<open>Ellipsis\<close> (the whole array) or an integer.
  The statement \<^verbatim>\<open>time_series[index] += ...\<close> reads the indexed entries
  (\<^verbatim>\<open>IndexError\<close> for an integer out of range) and then adds the object
  \<^verbatim>\<open>Ellipsis\<close> to floats, which raises \<^verbatim>\<open>TypeError\<close>: it never completes.
\<close>

datatype index_value = EllipsisIndex | IntIndex int

definition val :: int where "val = 3"

definition initial_jump :: int where "initial_jump = 5"

definition iadd_Ellipsis :: "vec \<Rightarrow> index_value \<Rightarrow> vec result" where
  "iadd_Ellipsis time_series index =
     (case index of
        EllipsisIndex \<Rightarrow> Inl TypeError
      | IntIndex i \<Rightarrow>
          (if - int (length time_series) \<le> i \<and> i < int (length time_series)
           then Inl TypeError else Inl IndexError))"

text \<open>\<^verbatim>\<open>first_jump + val\<close>: adding an integer to \<^verbatim>\<open>Ellipsis\<close> raises \<^verbatim>\<open>TypeError\<close>.\<close>

definition index_plus :: "index_value \<Rightarrow> int \<Rightarrow> int result" where
  "index_plus index n = (case index of EllipsisIndex \<Rightarrow> Inl TypeError | IntIndex i \<Rightarrow> Inr (i + n))"

text \<open>\<^verbatim>\<open>range(start, stop, step)\<close> for a positive step.\<close>

definition py_range :: "int \<Rightarrow> int \<Rightarrow> int \<Rightarrow> int list" where
  "py_range start stop step =
     map (\<lambda>k. start + int k * step) [0..<nat ((stop - start + step - 1) div step)]"

fun jump_loop :: "int list \<Rightarrow> vec \<Rightarrow> vec result" where
  "jump_loop [] time_series = Inr time_series"
| "jump_loop (i # is) time_series =
     (let jump = (if i mod 2 = 1 then 0 else initial_jump)
      in case iadd_Ellipsis time_series (IntIndex i) of
           Inl e \<Rightarrow> Inl e
         | Inr time_series' \<Rightarrow> jump_loop is time_series')"

definition make_time_series :: "nat \<Rightarrow> vec result" where
  "make_time_series sl =
     (let time_series = replicate (sl + 1) 0;
          first_jump = EllipsisIndex
      in case iadd_Ellipsis time_series first_jump of
           Inl e \<Rightarrow> Inl e
         | Inr time_series' \<Rightarrow>
             (case index_plus first_jump val of
                Inl e \<Rightarrow> Inl e
              | Inr start \<Rightarrow> jump_loop (py_range start (int sl + 1) val) time_series'))"

record TimeSeriesDataset =
  ds_seq_len :: nat
  data :: "vec list"

fun sample_loop :: "nat \<Rightarrow> nat \<Rightarrow> vec list \<Rightarrow> vec list result" where
  "sample_loop sl 0 acc = Inr acc"
| "sample_loop sl (Suc remaining) acc =
     (case make_time_series sl of
        Inl e \<Rightarrow> Inl e
      | Inr time_series \<Rightarrow> sample_loop sl remaining (acc @ [time_series]))"

definition TimeSeriesDataset_init :: "nat \<Rightarrow> nat \<Rightarrow> TimeSeriesDataset result" where
  "TimeSeriesDataset_init sl num_samples =
     (case sample_loop sl num_samples [] of
        Inl e \<Rightarrow> Inl e
      | Inr series \<Rightarrow> Inr \<lparr>ds_seq_len = sl, data = series\<rparr>)"

text \<open>
  \<^verbatim>\<open>TimeSeriesDataset.__getitem__(idx)\<close>:
  \<^verbatim>\<open>
  series = ...
  return ...
  \<close>
  An item is what the docstring promises, the pair of a series and a target, or the
  object \<^verbatim>\<open>Ellipsis\<close>.
\<close>

datatype item = EllipsisItem | Item vec real

definition TimeSeriesDataset_getitem :: "TimeSeriesDataset \<Rightarrow> int \<Rightarrow> item" where
  "TimeSeriesDataset_getitem self idx = (let series = EllipsisItem in EllipsisItem)"

section \<open>The attributes of the notebook's modules\<close>

text \<open>
  Each function lists the attributes the constructor of the class assigns, in its order,
  with the kind \<^verbatim>\<open>nn.Module\<close> gives them. \<^verbatim>\<open>self.rel_layer\<close> is assigned the
  result of \<^verbatim>\<open>torch.randn(1, seq_len, seq_len, requires_grad=True)\<close>, a tensor that is
  not an \<^verbatim>\<open>nn.Parameter\<close>.
\<close>

definition pyval_attr :: "pyval \<Rightarrow> attr" where
  "pyval_attr v = (case v of Ellipsis \<Rightarrow> PlainObject | Tensor t \<Rightarrow> PlainTensor (T3 t) False)"

definition Linear_attrs :: "Linear \<Rightarrow> (key \<times> attr) list" where
  "Linear_attrs self =
     [(Name ''in_features'', PlainObject), (Name ''out_features'', PlainObject),
      (Name ''weight'', Parameter (T2 (weight self))), (Name ''bias'', Parameter (T1 (bias self)))]"

definition LayerNorm_attrs :: "LayerNorm \<Rightarrow> (key \<times> attr) list" where
  "LayerNorm_attrs self =
     [(Name ''normalized_shape'', PlainObject), (Name ''eps'', PlainObject),
      (Name ''elementwise_affine'', PlainObject),
      (Name ''weight'', Parameter (T1 (ln_weight self))),
      (Name ''bias'', Parameter (T1 (ln_bias self)))]"

definition Dropout_attrs :: "Dropout \<Rightarrow> (key \<times> attr) list" where
  "Dropout_attrs self = [(Name ''p'', PlainObject), (Name ''inplace'', PlainObject)]"

definition ScaledDotProductAttention_attrs :: "ScaledDotProductAttention \<Rightarrow> (key \<times> attr) list" where
  "ScaledDotProductAttention_attrs self =
     [(Name ''d_k'', PlainObject), (Name ''seq_len'', PlainObject),
      (Name ''other_positional_encodings_present'', PlainObject),
      (Name ''rel_layer'', PlainTensor (T3 (rel_layer self)) True)]"

definition AttentionHead_attrs :: "AttentionHead \<Rightarrow> (key \<times> attr) list" where
  "AttentionHead_attrs self =
     [(Name ''d_k'', PlainObject), (Name ''seq_len'', PlainObject),
      (Name ''query_layer'', pyval_attr (query_layer self)),
      (Name ''key_layer'', pyval_attr (key_layer self)),
      (Name ''value_layer'', pyval_attr (value_layer self)),
      (Name ''scaled_dot_attention'',
         Submodule (ScaledDotProductAttention_attrs (scaled_dot_attention self))),
      (Name ''fc_out'', pyval_attr (head_fc_out self))]"

definition TransformerEncoderBlock_attrs :: "TransformerEncoderBlock \<Rightarrow> (key \<times> attr) list" where
  "TransformerEncoderBlock_attrs self =
     [(Name ''attention'', Submodule (AttentionHead_attrs (attention self))),
      (Name ''norm1'', Submodule (LayerNorm_attrs (norm1 self))),
      (Name ''norm2'', pyval_attr (norm2 self)),
      (Name ''ffn'',
         Submodule [(Index 0, Submodule (Linear_attrs (ffn_0 self))),
                    (Index 1, Submodule []),
                    (Index 2, Submodule (Linear_attrs (ffn_2 self)))]),
      (Name ''dropout'', Submodule (Dropout_attrs (dropout self)))]"

definition Transformer_attrs :: "Transformer \<Rightarrow> (key \<times> attr) list" where
  "Transformer_attrs self =
     [(Name ''positional_encoding'', PlainObject),
      (Name ''embedding'', Submodule (Linear_attrs (embedding self)))] @
     (case pos_encoder self of
        None \<Rightarrow> []
      | Some encoder \<Rightarrow> [(Name ''pos_encoder'', Submodule (module_attrs encoder))]) @
     [(Name ''encoder_layers'',
         Submodule (map (\<lambda>(i, layer). (Index i, Submodule (TransformerEncoderBlock_attrs layer)))
                      (enumerate 0 (encoder_layers self)))),
      (Name ''fc_out'', Submodule (Linear_attrs (fc_out self)))]"

definition PositionalEncoding_attrs :: "PositionalEncoding \<Rightarrow> (key \<times> attr) list" where
  "PositionalEncoding_attrs self = [(Name ''pe'', Buffer (T3 (pe self)))]"

text \<open>
  The class \<^verbatim>\<open>PositionalEncoding\<close> as the argument \<^verbatim>\<open>positional_encoding\<close> of
  \<^verbatim>\<open>Transformer\<close>.
\<close>

definition PositionalEncoding_class :: "nat \<Rightarrow> nat \<Rightarrow> module_object result" where
  "PositionalEncoding_class d_model max_len =
     map_sum id
       (\<lambda>self. \<lparr>module_call = PositionalEncoding_forward self,
                 module_attrs = PositionalEncoding_attrs self\<rparr>)
       (PositionalEncoding_init d_model max_len)"

text \<open>The path of the relative bias of block \<open>i\<close> in the model.\<close>

definition rel_layer_path :: "nat \<Rightarrow> key list" where
  "rel_layer_path i =
     [Name ''encoder_layers'', Index i, Name ''attention'', Name ''scaled_dot_attention'',
      Name ''rel_layer'']"

section \<open>Properties stated of the results\<close>



text \<open>Draws that are all zero and keep every entry, for the examples.\<close>

definition zero_block_draws :: block_draws where
  "zero_block_draws =
     \<lparr>rel_draw = (\<lambda>_ _. 0), ffn_0_w = (\<lambda>_ _. 0), ffn_0_b = (\<lambda>_. 0),
      ffn_2_w = (\<lambda>_ _. 0), ffn_2_b = (\<lambda>_. 0), keep_draw = (\<lambda>_ _ _. True)\<rparr>"

definition zero_draws :: model_draws where
  "zero_draws =
     \<lparr>embedding_w = (\<lambda>_ _. 0), embedding_b = (\<lambda>_. 0), layer_draws = (\<lambda>_. zero_block_draws),
      fc_out_w = (\<lambda>_ _. 0), fc_out_b = (\<lambda>_. 0)\<rparr>"

section \<open>Tensors given by their entries\<close>

lemma length_tab2 [simp]: "length (tab2 n d f) = n" by (simp add: tab2_def)
lemma length_tab3 [simp]: "length (tab3 b n d f) = b" by (simp add: tab3_def)
lemma nth_tab2 [simp]: "j < n \<Longrightarrow> tab2 n d f ! j = map (f j) [0..<d]" by (simp add: tab2_def)
lemma nth_tab3 [simp]: "i < b \<Longrightarrow> tab3 b n d f ! i = tab2 n d (f i)" by (simp add: tab3_def)

lemma nth_nth_tab3: "i < b \<Longrightarrow> j < n \<Longrightarrow> c < d \<Longrightarrow> tab3 b n d f ! i ! j ! c = f i j c"
  by simp

lemma shape2_tab2: "0 < n \<Longrightarrow> shape2 (tab2 n d f) = (n, d)"
  by (cases n) (simp_all add: tab2_def upt_conv_Cons del: upt_Suc)

lemma shape3_tab3: "0 < b \<Longrightarrow> 0 < n \<Longrightarrow> shape3 (tab3 b n d f) = (b, n, d)"
  by (cases b) (simp_all add: tab3_def upt_conv_Cons shape2_tab2 del: upt_Suc)

lemma has_shape3_tab3: "0 < b \<Longrightarrow> 0 < n \<Longrightarrow> 0 < d \<Longrightarrow> has_shape3 (b, n, d) (tab3 b n d f)"
  by (auto simp: has_shape3_def tab3_def tab2_def)

lemma tab2_cong: "(\<And>j c. j < n \<Longrightarrow> c < d \<Longrightarrow> f j c = g j c) \<Longrightarrow> tab2 n d f = tab2 n d g"
  by (simp add: tab2_def)

lemma tab3_cong:
  "(\<And>i j c. i < b \<Longrightarrow> j < n \<Longrightarrow> c < d \<Longrightarrow> f i j c = g i j c) \<Longrightarrow> tab3 b n d f = tab3 b n d g"
  unfolding tab3_def by (rule map_cong [OF refl], rule tab2_cong) simp

lemma tab2_nth_id:
  assumes "length m = n" "\<forall>r \<in> set m. length r = d"
  shows "tab2 n d (\<lambda>j c. m ! j ! c) = m"
proof (rule nth_equalityI)
  show "length (tab2 n d (\<lambda>j c. m ! j ! c)) = length m" using assms by simp
next
  fix j assume "j < length (tab2 n d (\<lambda>j c. m ! j ! c))"
  then have j: "j < n" by simp
  then have "length (m ! j) = d" using assms by simp
  then have "map ((!) (m ! j)) [0..<d] = m ! j"
    using map_nth [of "m ! j"] by simp
  then show "tab2 n d (\<lambda>j c. m ! j ! c) ! j = m ! j"
    using j by simp
qed

lemma tab3_nth_id:
  assumes "has_shape3 (b, n, d) t"
  shows "tab3 b n d (\<lambda>i j c. t ! i ! j ! c) = t"
proof (rule nth_equalityI)
  show "length (tab3 b n d (\<lambda>i j c. t ! i ! j ! c)) = length t"
    using assms by (simp add: has_shape3_def)
next
  fix i assume "i < length (tab3 b n d (\<lambda>i j c. t ! i ! j ! c))"
  then have i: "i < b" by simp
  then have "t ! i \<in> set t" using assms by (simp add: has_shape3_def)
  then have "length (t ! i) = n" "\<forall>r \<in> set (t ! i). length r = d"
    using assms by (auto simp: has_shape3_def)
  then show "tab3 b n d (\<lambda>i j c. t ! i ! j ! c) ! i = t ! i"
    using i by (simp add: tab2_nth_id)
qed

lemma mtranspose_tab2: "0 < n \<Longrightarrow> mtranspose (tab2 n d f) = tab2 d n (\<lambda>c j. f j c)"
proof -
  assume n: "0 < n"
  then obtain k where k: "n = Suc k" by (cases n) auto
  have "tab2 n d f = map (f 0) [0..<d] # map (\<lambda>j. map (f j) [0..<d]) [1..<n]"
    using n by (simp add: tab2_def upt_conv_Cons del: upt_Suc)
  then have "mtranspose (tab2 n d f) = map (\<lambda>c. map (\<lambda>row. row ! c) (tab2 n d f)) [0..<d]"
    by (simp add: mtranspose_def)
  also have "\<dots> = tab2 d n (\<lambda>c j. f j c)"
    by (simp add: tab2_def)
  finally show ?thesis .
qed

lemma transpose_last_tab3: "0 < n \<Longrightarrow> transpose_last (tab3 b n d f) = tab3 b d n (\<lambda>i c j. f i j c)"
  by (simp add: transpose_last_def tab3_def mtranspose_tab2)

lemma sum_list_map_upt: "sum_list (map f [0..<m]) = (\<Sum>k<m. (f k :: real))"
  by (induction m) simp_all

lemma dot_tab: "dot (map f [0..<m]) (map g [0..<m]) = (\<Sum>k<m. f k * g k)"
proof -
  have "map2 (*) (map f [0..<m]) (map g [0..<m]) = map (\<lambda>k. f k * g k) [0..<m]"
    by (induction m) simp_all
  then show ?thesis by (simp add: dot_def sum_list_map_upt)
qed

lemma mat_mul_tab2:
  "0 < m \<Longrightarrow> mat_mul (tab2 n m f) (tab2 m p g) = tab2 n p (\<lambda>i j. \<Sum>k<m. f i k * g k j)"
  by (simp add: mat_mul_def mtranspose_tab2) (simp add: tab2_def dot_tab)

lemma map2_upt: "map2 h (map f [0..<b]) (map g [0..<b]) = map (\<lambda>i. h (f i) (g i)) [0..<b]"
  by (induction b) simp_all

lemma matmul_tab3:
  assumes "0 < b" "0 < n" "0 < m"
  shows "matmul (tab3 b n m f) (tab3 b m p g) = Inr (tab3 b n p (\<lambda>i j c. \<Sum>k<m. f i j k * g i k c))"
  using assms by (simp add: matmul_def shape3_tab3) (simp add: tab3_def map2_upt mat_mul_tab2)

lemma div_scalar_tab3:
  "s \<noteq> 0 \<Longrightarrow> div_scalar (tab3 b n d f) s = Inr (tab3 b n d (\<lambda>i j c. f i j c / s))"
  by (simp add: div_scalar_def tab3_def tab2_def)

lemma softmax_last_tab3:
  "softmax_last (tab3 b n d f) = tab3 b n d (\<lambda>i j c. exp (f i j c) / (\<Sum>k<d. exp (f i j k)))"
  by (simp add: softmax_last_def tab3_def tab2_def softmax_row_def o_def sum_list_map_upt)

lemma bzip_single: "bzip f xs [y] = map (\<lambda>x. f x y) xs"
  by (cases xs) (auto simp: bzip_def)

lemma add3_tab3_bias:
  assumes "0 < b" "0 < n"
  shows "add3 (tab3 b n n f) (tab3 1 n n g) = Inr (tab3 b n n (\<lambda>i j c. f i j c + g 0 j c))"
proof -
  have inner: "bzip (bzip (+)) (tab2 n n (f i)) (tab2 n n (g 0)) = tab2 n n (\<lambda>j c. f i j c + g 0 j c)" for i
    by (simp add: bzip_def tab2_def map2_upt)
  have one: "tab3 1 n n g = [tab2 n n (g 0)]" by (simp add: tab3_def)
  have "bzip (bzip (bzip (+))) (tab3 b n n f) (tab3 1 n n g) = tab3 b n n (\<lambda>i j c. f i j c + g 0 j c)"
    unfolding one bzip_single by (simp add: tab3_def inner)
  then show ?thesis
    using assms by (simp add: add3_def shape3_tab3 broadcastable_def)
qed

lemma has_shape3_shape3: "has_shape3 (b, n, d) t \<Longrightarrow> shape3 t = (b, n, d)"
proof -
  assume h: "has_shape3 (b, n, d) t"
  then have "shape3 (tab3 b n d (\<lambda>i a x. t ! i ! a ! x)) = (b, n, d)"
    by (intro shape3_tab3) (auto simp: has_shape3_def)
  then show ?thesis by (simp only: tab3_nth_id [OF h])
qed

section \<open>What the attention unit computes\<close>

lemma has_shape3_nth:
  assumes "has_shape3 (b, n, d) t" "i < b"
  shows "length (t ! i) = n" and "a < n \<Longrightarrow> length (t ! i ! a) = d"
proof -
  have m: "t ! i \<in> set t" using assms by (simp add: has_shape3_def)
  then show n: "length (t ! i) = n"
    using assms by (auto simp: has_shape3_def)
  assume "a < n"
  then have "t ! i ! a \<in> set (t ! i)" using n by simp
  then show "length (t ! i ! a) = d"
    using assms m by (auto simp: has_shape3_def)
qed

lemma forward_tab:
  assumes q: "has_shape3 (b, n, d) q" and k: "has_shape3 (b, n, d) k" and v: "has_shape3 (b, n, dv) v"
    and bias: "if other_positional_encodings_present self then g = (\<lambda>_ _. 0)
               else rel_layer self = tab3 1 n n (\<lambda>_. g)"
    and dk: "0 < d_k self"
  shows "ScaledDotProductAttention_forward self q k v =
     Inr (tab3 b n dv (att_output (sqrt (real (d_k self))) g q k v),
          tab3 b n n (att_weight (sqrt (real (d_k self))) g q k))"
proof -
  let ?s = "sqrt (real (d_k self))"
  have pos: "0 < b" "0 < n" "0 < d" "0 < dv" using q v by (auto simp: has_shape3_def)
  have qT: "tab3 b n d (\<lambda>i a x. q ! i ! a ! x) = q" by (rule tab3_nth_id [OF q])
  have kT: "tab3 b n d (\<lambda>i a x. k ! i ! a ! x) = k" by (rule tab3_nth_id [OF k])
  have vT: "tab3 b n dv (\<lambda>i a x. v ! i ! a ! x) = v" by (rule tab3_nth_id [OF v])
  have "matmul (tab3 b n d (\<lambda>i a x. q ! i ! a ! x))
          (transpose_last (tab3 b n d (\<lambda>i a x. k ! i ! a ! x))) =
      Inr (tab3 b n n (\<lambda>i a c. \<Sum>x<d. q ! i ! a ! x * k ! i ! c ! x))"
    using pos by (simp add: transpose_last_tab3 matmul_tab3)
  then have qk: "matmul q (transpose_last k) =
      Inr (tab3 b n n (\<lambda>i a c. \<Sum>x<d. q ! i ! a ! x * k ! i ! c ! x))"
    unfolding qT kT .
  define S where "S = tab3 b n n (att_score ?s g q k)"
  have s0: "?s \<noteq> 0" using dk by simp
  have scaled: "div_scalar (tab3 b n n (\<lambda>i a c. \<Sum>x<d. q ! i ! a ! x * k ! i ! c ! x)) ?s =
      Inr (tab3 b n n (\<lambda>i a c. (\<Sum>x<d. q ! i ! a ! x * k ! i ! c ! x) / ?s))"
    by (rule div_scalar_tab3 [OF s0])
  have sc: "tab3 b n n (\<lambda>i a c. (\<Sum>x<d. q ! i ! a ! x * k ! i ! c ! x) / ?s + g a c) = S"
    unfolding S_def using has_shape3_nth [OF q]
    by (intro tab3_cong) (simp add: att_score_def)
  have scores: "(if \<not> other_positional_encodings_present self
                 then add3 (tab3 b n n (\<lambda>i a c. (\<Sum>x<d. q ! i ! a ! x * k ! i ! c ! x) / ?s)) (rel_layer self)
                 else Inr (tab3 b n n (\<lambda>i a c. (\<Sum>x<d. q ! i ! a ! x * k ! i ! c ! x) / ?s))) = Inr S"
  proof (cases "other_positional_encodings_present self")
    case True
    then have "g = (\<lambda>_ _. 0)" using bias by simp
    then show ?thesis using True sc by simp
  next
    case False
    then have "rel_layer self = tab3 1 n n (\<lambda>_. g)" using bias by simp
    then show ?thesis using False sc pos add3_tab3_bias [of b n _ "\<lambda>_. g"]
      by simp
  qed
  have W: "softmax_last S = tab3 b n n (att_weight ?s g q k)"
    unfolding S_def softmax_last_tab3 using has_shape3_nth [OF k]
    by (intro tab3_cong) (simp add: att_weight_def)
  have "matmul (tab3 b n n (att_weight ?s g q k)) (tab3 b n dv (\<lambda>i a x. v ! i ! a ! x)) =
      Inr (tab3 b n dv (\<lambda>i a c. \<Sum>j<n. att_weight ?s g q k i a j * v ! i ! j ! c))"
    using pos by (simp add: matmul_tab3)
  then have "matmul (tab3 b n n (att_weight ?s g q k)) v =
      Inr (tab3 b n dv (\<lambda>i a c. \<Sum>j<n. att_weight ?s g q k i a j * v ! i ! j ! c))"
    unfolding vT .
  also have "tab3 b n dv (\<lambda>i a c. \<Sum>j<n. att_weight ?s g q k i a j * v ! i ! j ! c) =
      tab3 b n dv (att_output ?s g q k v)"
    using has_shape3_nth [OF v] by (intro tab3_cong) (simp add: att_output_def)
  finally have out: "matmul (tab3 b n n (att_weight ?s g q k)) v = Inr (tab3 b n dv (att_output ?s g q k v))" .
  show ?thesis
    by (simp only: ScaledDotProductAttention_forward_def qk sum.case scaled scores W out)
qed


lemmas unit_eval = ScaledDotProductAttention_forward_def matmul_def transpose_last_def mtranspose_def
  mat_mul_def dot_def div_scalar_def add3_def bzip_def broadcastable_def softmax_last_def
  softmax_row_def

lemma unit_formula_is_spec_formula:
  "unit_score (feature_dim q) q k = spec_score q k"
  "unit_weight (feature_dim q) q k = spec_weight q k"
  "unit_output (feature_dim q) q k v = spec_output q k v"
proof -
  show s: "unit_score (feature_dim q) q k = spec_score q k"
    by (intro ext) (simp add: unit_score_def spec_score_def)
  show w: "unit_weight (feature_dim q) q k = spec_weight q k"
    by (intro ext) (simp add: unit_weight_def spec_weight_def s)
  show "unit_output (feature_dim q) q k v = spec_output q k v"
    by (intro ext) (simp add: unit_output_def spec_output_def w)
qed

text \<open>
  C1, amended. For query and key of shape \<open>(batch, seq_len, d)\<close> and value of shape
  \<open>(batch, seq_len, d_v)\<close>, the attention unit with no relative positional bias active
  and a positive \<open>d_k\<close> returns the pair of the output \<open>softmax(Q K\<^sup>T / sqrt d_k) V\<close>
  and of the weights \<open>softmax(Q K\<^sup>T / sqrt d_k)\<close>, where the divisor is the square root
  of the attribute \<open>d_k\<close> the unit was constructed with; it is the square root of the
  feature dimension of the query and the key exactly when the unit was constructed with
  that dimension, and then the result is the formula of the specification. Both tensors
  are returned, the softmax runs over the last axis, the output has the shape of the
  value and the weights the shape \<open>(batch, seq_len, seq_len)\<close>. The witness is the case
  of the shapes \<open>(2, 10, 16)\<close> with \<open>d_k = 16\<close>.
\<close>

theorem attention_unit_divides_by_own_d_k:
  assumes "other_positional_encodings_present self" and dk: "0 < d_k self"
    and q: "has_shape3 (b, n, d) query"
    and k: "has_shape3 (b, n, d) key"
    and v: "has_shape3 (b, n, d_v) value"
  shows "\<exists>output weights.
      ScaledDotProductAttention_forward self query key value = Inr (output, weights) \<and>
      shape3 output = (b, n, d_v) \<and> has_shape3 (b, n, d_v) output \<and>
      shape3 weights = (b, n, n) \<and> has_shape3 (b, n, n) weights \<and>
      (\<forall>i<b. \<forall>a<n.
         (\<forall>c<n. weights ! i ! a ! c = unit_weight (d_k self) query key i a c) \<and>
         (\<forall>c<d_v. output ! i ! a ! c = unit_output (d_k self) query key value i a c)) \<and>
      (d_k self = d \<longrightarrow>
         (\<forall>i<b. \<forall>a<n.
            (\<forall>c<n. weights ! i ! a ! c = spec_weight query key i a c) \<and>
            (\<forall>c<d_v. output ! i ! a ! c = spec_output query key value i a c)))"
proof -
  let ?s = "sqrt (real (d_k self))"
  let ?z = "\<lambda>_ _. 0 :: real"
  have pos: "0 < b" "0 < n" "0 < d" "0 < d_v" using q v by (auto simp: has_shape3_def)
  have fw: "ScaledDotProductAttention_forward self query key value =
      Inr (tab3 b n d_v (att_output ?s ?z query key value), tab3 b n n (att_weight ?s ?z query key))"
    using assms by (intro forward_tab) simp_all
  have fd: "feature_dim query = d" "sequence_length key = n"
    using has_shape3_shape3 [OF q] has_shape3_shape3 [OF k]
    by (simp_all add: feature_dim_def sequence_length_def)
  have sc: "att_score ?s ?z query key i a c = unit_score (d_k self) query key i a c"
    if "i < b" "a < n" for i a c
    using that has_shape3_nth [OF q] by (simp add: att_score_def unit_score_def fd)
  have w: "att_weight ?s ?z query key i a c = unit_weight (d_k self) query key i a c"
    if "i < b" "a < n" for i a c
    using that has_shape3_nth [OF k] by (simp add: att_weight_def unit_weight_def fd sc)
  have out: "att_output ?s ?z query key value i a c = unit_output (d_k self) query key value i a c"
    if "i < b" "a < n" for i a c
    using that has_shape3_nth [OF v] by (simp add: att_output_def unit_output_def fd w)
  have spec: "unit_weight (d_k self) query key = spec_weight query key"
      "unit_output (d_k self) query key value = spec_output query key value" if "d_k self = d"
    using that unit_formula_is_spec_formula(2,3) [of query key] fd(1) by simp_all
  let ?O = "tab3 b n d_v (att_output ?s ?z query key value)"
  let ?W = "tab3 b n n (att_weight ?s ?z query key)"
  have sh: "shape3 ?O = (b, n, d_v)" "has_shape3 (b, n, d_v) ?O"
      "shape3 ?W = (b, n, n)" "has_shape3 (b, n, n) ?W"
    using pos by (simp_all add: has_shape3_tab3 shape3_tab3)
  have A: "\<forall>i<b. \<forall>a<n.
      (\<forall>c<n. ?W ! i ! a ! c = unit_weight (d_k self) query key i a c) \<and>
      (\<forall>c<d_v. ?O ! i ! a ! c = unit_output (d_k self) query key value i a c)"
    by (simp add: w out)
  have B: "d_k self = d \<longrightarrow> (\<forall>i<b. \<forall>a<n.
      (\<forall>c<n. ?W ! i ! a ! c = spec_weight query key i a c) \<and>
      (\<forall>c<d_v. ?O ! i ! a ! c = spec_output query key value i a c))"
  proof
    assume e: "d_k self = d"
    from A show "\<forall>i<b. \<forall>a<n.
      (\<forall>c<n. ?W ! i ! a ! c = spec_weight query key i a c) \<and>
      (\<forall>c<d_v. ?O ! i ! a ! c = spec_output query key value i a c)"
      unfolding spec(1) [OF e] spec(2) [OF e] .
  qed
  show ?thesis
    using fw sh A B by blast
qed

theorem attention_unit_divides_by_own_d_k_witness:
  "other_positional_encodings_present (ScaledDotProductAttention_init 10 16 True (\<lambda>_ _. 0)) \<and>
   0 < d_k (ScaledDotProductAttention_init 10 16 True (\<lambda>_ _. 0)) \<and>
   d_k (ScaledDotProductAttention_init 10 16 True (\<lambda>_ _. 0)) = 16 \<and>
   has_shape3 (2, 10, 16) (tab3 2 10 16 (\<lambda>_ _ _. 0)) \<and>
   (\<exists>output weights.
      ScaledDotProductAttention_forward (ScaledDotProductAttention_init 10 16 True (\<lambda>_ _. 0))
        (tab3 2 10 16 (\<lambda>_ _ _. 0)) (tab3 2 10 16 (\<lambda>_ _ _. 0)) (tab3 2 10 16 (\<lambda>_ _ _. 0))
        = Inr (output, weights) \<and>
      shape3 output = (2, 10, 16) \<and> shape3 weights = (2, 10, 10) \<and>
      weights ! 0 ! 0 ! 0 = spec_weight (tab3 2 10 16 (\<lambda>_ _ _. 0)) (tab3 2 10 16 (\<lambda>_ _ _. 0)) 0 0 0)"
proof -
  let ?u = "ScaledDotProductAttention_init 10 16 True (\<lambda>_ _. 0)"
  let ?z = "tab3 2 10 16 (\<lambda>_ _ _. 0)"
  have u: "other_positional_encodings_present ?u" "0 < d_k ?u" "d_k ?u = 16"
    by (simp_all add: ScaledDotProductAttention_init_def)
  have z: "has_shape3 (2, 10, 16) ?z" by (simp add: has_shape3_tab3)
  from attention_unit_divides_by_own_d_k [OF u(1,2) z z z] obtain out w where
    "ScaledDotProductAttention_forward ?u ?z ?z ?z = Inr (out, w)"
    "shape3 out = (2, 10, 16)" "shape3 w = (2, 10, 10)"
    "d_k ?u = 16 \<longrightarrow> (\<forall>i<2. \<forall>a<10.
        (\<forall>c<10. w ! i ! a ! c = spec_weight ?z ?z i a c) \<and>
        (\<forall>c<16. out ! i ! a ! c = spec_output ?z ?z ?z i a c))"
    by blast
  then show ?thesis using u z by auto
qed

lemma exp_ratio_differs: "exp (1::real) / (exp 1 + 1) \<noteq> exp 2 / (exp 2 + 1)"
proof
  assume "exp (1::real) / (exp 1 + 1) = exp 2 / (exp 2 + 1)"
  moreover have "0 < exp (1::real) + 1" "0 < exp (2::real) + 1"
    by (simp_all add: add_pos_pos)
  ultimately have "exp (1::real) * (exp 2 + 1) = exp 2 * (exp 1 + 1)"
    by (simp add: frac_eq_eq)
  then have "exp (1::real) = exp 2" by (simp add: algebra_simps)
  then show False by simp
qed

lemma wide_divisor_example:
  "ScaledDotProductAttention_forward
      \<lparr>d_k = 4, seq_len = 2, other_positional_encodings_present = True,
       rel_layer = [[[0, 0], [0, 0]]]\<rparr> [[[2], [0]]] [[[1], [0]]] [[[0], [0]]] =
   Inr ([[[0], [0]]], [[[exp 1 / (exp 1 + 1), 1 / (exp 1 + 1)], [1 / 2, 1 / 2]]])"
  by (simp add: unit_eval)

lemma wide_divisor_spec:
  "spec_weight [[[2], [0]]] [[[1], [0]]] 0 0 0 = exp 2 / (exp 2 + 1)"
  by (simp add: spec_weight_def spec_score_def feature_dim_def sequence_length_def
      lessThan_Suc eval_nat_numeral)

text \<open>
  C1, as stated, fails: a unit constructed with \<open>d_k = 4\<close> and no bias, on a query and a
  key of shape \<open>(1, 2, 1)\<close>, divides the score 2 by \<open>sqrt 4\<close> and returns the weight
  \<open>e / (e + 1)\<close> at position \<open>(0, 0, 0)\<close>; with the square root of the feature dimension 1
  of the query as divisor the weight is \<open>e\<^sup>2 / (e\<^sup>2 + 1)\<close>.
\<close>

theorem attention_divisor_counterexample:
  "has_shape3 (1, 2, 1) [[[2], [0]]] \<and> has_shape3 (1, 2, 1) [[[1], [0]]] \<and>
   has_shape3 (1, 2, 1) [[[0], [0]]] \<and>
   ScaledDotProductAttention_forward
      \<lparr>d_k = 4, seq_len = 2, other_positional_encodings_present = True,
       rel_layer = [[[0, 0], [0, 0]]]\<rparr> [[[2], [0]]] [[[1], [0]]] [[[0], [0]]] =
   Inr ([[[0], [0]]], [[[exp 1 / (exp 1 + 1), 1 / (exp 1 + 1)], [1 / 2, 1 / 2]]]) \<and>
   spec_weight [[[2], [0]]] [[[1], [0]]] 0 0 0 = exp 2 / (exp 2 + 1) \<and>
   exp (1::real) / (exp 1 + 1) \<noteq> spec_weight [[[2], [0]]] [[[1], [0]]] 0 0 0"
  using wide_divisor_example wide_divisor_spec exp_ratio_differs
  by (simp add: has_shape3_def)

section \<open>Softmax rows\<close>

lemma sum_list_div_const: "sum_list (map (\<lambda>x. f x / c) xs) = sum_list (map f xs) / (c::real)"
  by (induction xs) (simp_all add: add_divide_distrib)

lemma sum_list_exp_nonneg: "0 \<le> sum_list (map exp (xs::real list))"
  by (induction xs) simp_all

lemma sum_list_exp_pos: "xs \<noteq> [] \<Longrightarrow> 0 < sum_list (map exp (xs::real list))"
proof (cases xs)
  case (Cons a as)
  have "0 < exp a" by simp
  then show ?thesis using sum_list_exp_nonneg [of as] Cons by (simp add: add_pos_nonneg)
qed simp

lemma softmax_row_sum: "r \<noteq> [] \<Longrightarrow> sum_list (softmax_row r) = 1"
  using sum_list_exp_pos [of r] by (simp add: softmax_row_def sum_list_div_const)

lemma softmax_last_rows:
  assumes "m \<in> set (softmax_last t)" "r \<in> set m" "r \<noteq> []"
  shows "sum_list r = 1"
proof -
  from assms obtain r' where "r = softmax_row r'" by (auto simp: softmax_last_def)
  moreover have "r' \<noteq> []" using assms calculation by (auto simp: softmax_row_def)
  ultimately show ?thesis by (simp add: softmax_row_sum)
qed

section \<open>Rows of the attention weights\<close>

lemma encoder_loop_returns:
  "encoder_loop layers x acc = Inr (x', ws) \<Longrightarrow> layers = [] \<and> x' = x \<and> ws = acc"
  by (cases layers)
    (simp_all add: TransformerEncoderBlock_forward_def AttentionHead_forward_def unpack_Ellipsis_def)

lemma Transformer_forward_weights:
  "Transformer_forward model x = Inr (out, ws) \<Longrightarrow> encoder_layers model = [] \<and> ws = []"
  unfolding Transformer_forward_def
  by (auto split: sum.splits dest: encoder_loop_returns)




section \<open>Permutations of the sequence axis and the attention unit\<close>

lemma is_permutation_nth: "is_permutation \<pi> n \<Longrightarrow> a < n \<Longrightarrow> \<pi> ! a < n"
proof -
  assume "is_permutation \<pi> n" "a < n"
  then have "\<pi> ! a \<in> {0..<n}" unfolding is_permutation_def using nth_mem [of a \<pi>] by blast
  then show ?thesis by simp
qed

lemma is_permutation_distinct: "is_permutation \<pi> n \<Longrightarrow> distinct \<pi>"
proof -
  assume "is_permutation \<pi> n"
  then have "card (set \<pi>) = length \<pi>" by (simp add: is_permutation_def)
  then show ?thesis by (rule card_distinct)
qed

lemma sum_permutation:
  assumes "is_permutation \<pi> n"
  shows "(\<Sum>j<n. f (\<pi> ! j)) = (\<Sum>j<n. (f j :: real))"
proof -
  have "length \<pi> = n" "set \<pi> = {..<n}"
    using assms by (simp_all add: is_permutation_def atLeast0LessThan)
  then have "bij_betw ((!) \<pi>) {..<n} {..<n}"
    using is_permutation_distinct [OF assms] by (intro bij_betw_nth) simp_all
  then show ?thesis by (rule sum.reindex_bij_betw)
qed

lemma map_list_as_upt: "map f xs = map (\<lambda>a. f (xs ! a)) [0..<length xs]"
  by (rule nth_equalityI) simp_all

lemma permute_seq_tab3:
  assumes "is_permutation \<pi> n"
  shows "permute_seq \<pi> (tab3 b n d f) = tab3 b n d (\<lambda>i a c. f i (\<pi> ! a) c)"
proof -
  have len: "length \<pi> = n" using assms by (simp add: is_permutation_def)
  have "map (\<lambda>a. tab2 n d g ! a) \<pi> = tab2 n d (\<lambda>a c. g (\<pi> ! a) c)" for g
  proof -
    have "map (\<lambda>a. tab2 n d g ! a) \<pi> = map (\<lambda>a. tab2 n d g ! (\<pi> ! a)) [0..<n]"
      using map_list_as_upt [of "\<lambda>a. tab2 n d g ! a" \<pi>] len by simp
    also have "\<dots> = tab2 n d (\<lambda>a c. g (\<pi> ! a) c)"
      using is_permutation_nth [OF assms] by (simp add: tab2_def)
    finally show ?thesis .
  qed
  then show ?thesis by (simp add: permute_seq_def tab3_def)
qed

lemma permute_keys_tab3:
  assumes "is_permutation \<pi> n"
  shows "permute_keys \<pi> (tab3 b m n f) = tab3 b m n (\<lambda>i a c. f i a (\<pi> ! c))"
proof -
  have len: "length \<pi> = n" using assms by (simp add: is_permutation_def)
  have "map (\<lambda>c. map h [0..<n] ! c) \<pi> = map (\<lambda>c. h (\<pi> ! c)) [0..<n]" for h :: "nat \<Rightarrow> real"
  proof -
    have "map (\<lambda>c. map h [0..<n] ! c) \<pi> = map (\<lambda>c. map h [0..<n] ! (\<pi> ! c)) [0..<n]"
      using map_list_as_upt [of "\<lambda>c. map h [0..<n] ! c" \<pi>] len by simp
    also have "\<dots> = map (\<lambda>c. h (\<pi> ! c)) [0..<n]"
      using is_permutation_nth [OF assms] by simp
    finally show ?thesis .
  qed
  then show ?thesis by (simp add: permute_keys_def tab3_def tab2_def)
qed

lemma has_shape3_permute_seq:
  assumes "has_shape3 (b, n, d) t" "is_permutation \<pi> n"
  shows "has_shape3 (b, n, d) (permute_seq \<pi> t)"
proof -
  have pos: "0 < b" "0 < n" "0 < d" using assms by (auto simp: has_shape3_def)
  have "permute_seq \<pi> (tab3 b n d (\<lambda>i a c. t ! i ! a ! c)) = tab3 b n d (\<lambda>i a c. t ! i ! (\<pi> ! a) ! c)"
    by (rule permute_seq_tab3 [OF assms(2)])
  then have "permute_seq \<pi> t = tab3 b n d (\<lambda>i a c. t ! i ! (\<pi> ! a) ! c)"
    by (simp only: tab3_nth_id [OF assms(1)])
  then show ?thesis using pos by (simp add: has_shape3_tab3)
qed

lemma permute_seq_nth:
  assumes "has_shape3 (b, n, d) t" "is_permutation \<pi> n" "i < b" "a < n"
  shows "permute_seq \<pi> t ! i ! a = t ! i ! (\<pi> ! a)"
proof -
  have "i < length t" "a < length \<pi>"
    using assms by (simp_all add: has_shape3_def is_permutation_def)
  then show ?thesis by (simp add: permute_seq_def)
qed

lemma equivariance_entries:
  assumes q: "has_shape3 (b, n, d) q" and k: "has_shape3 (b, n, d) k" and v: "has_shape3 (b, n, d_v) v"
    and p: "is_permutation \<pi> n" and i: "i < b" and a: "a < n"
  shows "c < n \<Longrightarrow> att_score s (\<lambda>_ _. 0) (permute_seq \<pi> q) (permute_seq \<pi> k) i a c =
           att_score s (\<lambda>_ _. 0) q k i (\<pi> ! a) (\<pi> ! c)"
    and "c < n \<Longrightarrow> att_weight s (\<lambda>_ _. 0) (permute_seq \<pi> q) (permute_seq \<pi> k) i a c =
           att_weight s (\<lambda>_ _. 0) q k i (\<pi> ! a) (\<pi> ! c)"
    and "att_output s (\<lambda>_ _. 0) (permute_seq \<pi> q) (permute_seq \<pi> k) (permute_seq \<pi> v) i a x =
           att_output s (\<lambda>_ _. 0) q k v i (\<pi> ! a) x"
proof -
  have sc: "att_score s (\<lambda>_ _. 0) (permute_seq \<pi> q) (permute_seq \<pi> k) i a c =
           att_score s (\<lambda>_ _. 0) q k i (\<pi> ! a) (\<pi> ! c)" if "c < n" for c
    using that i a by (simp add: att_score_def permute_seq_nth [OF q p] permute_seq_nth [OF k p])
  have lk: "length (permute_seq \<pi> k ! i) = n" "length (k ! i) = n"
    using has_shape3_nth(1) [OF has_shape3_permute_seq [OF k p] i] has_shape3_nth(1) [OF k i]
    by simp_all
  have lv: "length (permute_seq \<pi> v ! i) = n" "length (v ! i) = n"
    using has_shape3_nth(1) [OF has_shape3_permute_seq [OF v p] i] has_shape3_nth(1) [OF v i]
    by simp_all
  have den: "(\<Sum>j<n. exp (att_score s (\<lambda>_ _. 0) (permute_seq \<pi> q) (permute_seq \<pi> k) i a j)) =
      (\<Sum>j<n. exp (att_score s (\<lambda>_ _. 0) q k i (\<pi> ! a) j))"
  proof -
    have "(\<Sum>j<n. exp (att_score s (\<lambda>_ _. 0) (permute_seq \<pi> q) (permute_seq \<pi> k) i a j)) =
        (\<Sum>j<n. exp (att_score s (\<lambda>_ _. 0) q k i (\<pi> ! a) (\<pi> ! j)))"
      by (rule sum.cong) (simp_all add: sc)
    also have "\<dots> = (\<Sum>j<n. exp (att_score s (\<lambda>_ _. 0) q k i (\<pi> ! a) j))"
      by (rule sum_permutation [OF p])
    finally show ?thesis .
  qed
  have w: "att_weight s (\<lambda>_ _. 0) (permute_seq \<pi> q) (permute_seq \<pi> k) i a c =
           att_weight s (\<lambda>_ _. 0) q k i (\<pi> ! a) (\<pi> ! c)" if "c < n" for c
    using that den sum_permutation [OF p, of "\<lambda>j. exp (att_score s (\<lambda>_ _. 0) q k i (\<pi> ! a) j)"]
    by (simp add: att_weight_def lk sc)
  show "c < n \<Longrightarrow> att_score s (\<lambda>_ _. 0) (permute_seq \<pi> q) (permute_seq \<pi> k) i a c =
           att_score s (\<lambda>_ _. 0) q k i (\<pi> ! a) (\<pi> ! c)"
    by (rule sc)
  show "c < n \<Longrightarrow> att_weight s (\<lambda>_ _. 0) (permute_seq \<pi> q) (permute_seq \<pi> k) i a c =
           att_weight s (\<lambda>_ _. 0) q k i (\<pi> ! a) (\<pi> ! c)"
    by (rule w)
  have "att_output s (\<lambda>_ _. 0) (permute_seq \<pi> q) (permute_seq \<pi> k) (permute_seq \<pi> v) i a x =
      (\<Sum>j<n. att_weight s (\<lambda>_ _. 0) q k i (\<pi> ! a) (\<pi> ! j) * v ! i ! (\<pi> ! j) ! x)"
    unfolding att_output_def lv
    by (rule sum.cong) (simp_all add: w permute_seq_nth [OF v p i])
  also have "\<dots> = (\<Sum>j<n. att_weight s (\<lambda>_ _. 0) q k i (\<pi> ! a) j * v ! i ! j ! x)"
    by (rule sum_permutation [OF p, of "\<lambda>j. att_weight s (\<lambda>_ _. 0) q k i (\<pi> ! a) j * v ! i ! j ! x"])
  finally show "att_output s (\<lambda>_ _. 0) (permute_seq \<pi> q) (permute_seq \<pi> k) (permute_seq \<pi> v) i a x =
           att_output s (\<lambda>_ _. 0) q k v i (\<pi> ! a) x"
    by (simp add: att_output_def lv)
qed

lemma equivariance_no_bias:
  assumes f: "other_positional_encodings_present self" and dk: "0 < d_k self"
    and q: "has_shape3 (b, n, d) q" and k: "has_shape3 (b, n, d) k" and v: "has_shape3 (b, n, d_v) v"
    and p: "is_permutation \<pi> n"
  shows "\<exists>output weights.
      ScaledDotProductAttention_forward self q k v = Inr (output, weights) \<and>
      ScaledDotProductAttention_forward self (permute_seq \<pi> q) (permute_seq \<pi> k) (permute_seq \<pi> v)
        = Inr (permute_seq \<pi> output, permute_keys \<pi> (permute_seq \<pi> weights))"
proof -
  let ?s = "sqrt (real (d_k self))"
  let ?z = "\<lambda>_ _. 0 :: real"
  have fw: "ScaledDotProductAttention_forward self q k v =
      Inr (tab3 b n d_v (att_output ?s ?z q k v), tab3 b n n (att_weight ?s ?z q k))"
    using f dk q k v by (intro forward_tab) simp_all
  have fwp: "ScaledDotProductAttention_forward self (permute_seq \<pi> q) (permute_seq \<pi> k) (permute_seq \<pi> v) =
      Inr (tab3 b n d_v (att_output ?s ?z (permute_seq \<pi> q) (permute_seq \<pi> k) (permute_seq \<pi> v)),
           tab3 b n n (att_weight ?s ?z (permute_seq \<pi> q) (permute_seq \<pi> k)))"
    using f dk has_shape3_permute_seq [OF q p] has_shape3_permute_seq [OF k p]
      has_shape3_permute_seq [OF v p]
    by (intro forward_tab) simp_all
  have o: "tab3 b n d_v (att_output ?s ?z (permute_seq \<pi> q) (permute_seq \<pi> k) (permute_seq \<pi> v)) =
      permute_seq \<pi> (tab3 b n d_v (att_output ?s ?z q k v))"
    unfolding permute_seq_tab3 [OF p]
    by (rule tab3_cong) (rule equivariance_entries(3) [OF q k v p])
  have w: "tab3 b n n (att_weight ?s ?z (permute_seq \<pi> q) (permute_seq \<pi> k)) =
      permute_keys \<pi> (permute_seq \<pi> (tab3 b n n (att_weight ?s ?z q k)))"
    unfolding permute_seq_tab3 [OF p] permute_keys_tab3 [OF p]
    by (rule tab3_cong) (rule equivariance_entries(2) [OF q k v p])
  show ?thesis unfolding fw fwp o w by simp
qed

lemma biased_forward_example:
  "ScaledDotProductAttention_forward
      \<lparr>d_k = 1, seq_len = 2, other_positional_encodings_present = False,
       rel_layer = [[[0, 1], [0, 0]]]\<rparr> [[[0], [0]]] [[[0], [0]]] [[[0], [0]]] =
   Inr ([[[0], [0]]], [[[1 / (1 + exp 1), exp 1 / (1 + exp 1)], [1 / 2, 1 / 2]]])"
  by (simp add: unit_eval)

lemma exp_one_half: "1 / (1 + exp (1::real)) \<noteq> 1 / 2"
proof -
  have "exp (1::real) \<noteq> 1" by simp
  then show ?thesis by (simp add: field_simps)
qed

lemma biased_not_equivariant:
  "ScaledDotProductAttention_forward
      \<lparr>d_k = 1, seq_len = 2, other_positional_encodings_present = False,
       rel_layer = [[[0, 1], [0, 0]]]\<rparr>
      (permute_seq [1, 0] [[[0], [0]]]) (permute_seq [1, 0] [[[0], [0]]]) (permute_seq [1, 0] [[[0], [0]]]) \<noteq>
   Inr (permute_seq [1, 0] [[[0], [0]]],
        permute_keys [1, 0] (permute_seq [1, 0] [[[1 / (1 + exp 1), exp 1 / (1 + exp 1)], [1 / 2, 1 / 2]]]))"
proof -
  have p: "permute_seq [1, 0] [[[0::real], [0]]] = [[[0], [0]]]" by (simp add: permute_seq_def)
  show ?thesis unfolding p biased_forward_example using exp_one_half
    by (simp add: permute_seq_def permute_keys_def)
qed

lemma perm_swap: "is_permutation [1, 0] 2"
  by (auto simp: is_permutation_def)

lemma shape_ex: "has_shape3 (1, 2, 1) [[[0], [0]]]"
  by (simp add: has_shape3_def)

text \<open>
  C8. With no relative positional bias active (the unit has no mask; \<open>d_k\<close> is positive),
  the attention unit is permutation-equivariant: permuting the sequence axis of query, key and value
  with the same permutation permutes the rows of the output and the rows and columns of
  the weight matrix with it. With the relative positional bias active the equivariance
  fails for some unit, input and permutation.
\<close>

theorem attention_permutation_equivariance:
  assumes "other_positional_encodings_present self" and "0 < d_k self"
    and "has_shape3 (b, n, d) q" and "has_shape3 (b, n, d) k" and "has_shape3 (b, n, d_v) v"
    and "is_permutation \<pi> n"
  shows "(\<exists>output weights.
            ScaledDotProductAttention_forward self q k v = Inr (output, weights) \<and>
            ScaledDotProductAttention_forward self
                (permute_seq \<pi> q) (permute_seq \<pi> k) (permute_seq \<pi> v)
              = Inr (permute_seq \<pi> output, permute_keys \<pi> (permute_seq \<pi> weights))) \<and>
         (\<exists>self' q' \<pi>' output' weights'.
            \<not> other_positional_encodings_present self' \<and>
            has_shape3 (1, 2, 1) q' \<and> is_permutation \<pi>' 2 \<and>
            ScaledDotProductAttention_forward self' q' q' q' = Inr (output', weights') \<and>
            ScaledDotProductAttention_forward self'
                (permute_seq \<pi>' q') (permute_seq \<pi>' q') (permute_seq \<pi>' q')
              \<noteq> Inr (permute_seq \<pi>' output', permute_keys \<pi>' (permute_seq \<pi>' weights')))"
proof
  show "\<exists>output weights.
      ScaledDotProductAttention_forward self q k v = Inr (output, weights) \<and>
      ScaledDotProductAttention_forward self
          (permute_seq \<pi> q) (permute_seq \<pi> k) (permute_seq \<pi> v)
        = Inr (permute_seq \<pi> output, permute_keys \<pi> (permute_seq \<pi> weights))"
    using assms by (rule equivariance_no_bias)
next
  let ?u = "\<lparr>d_k = 1, seq_len = 2, other_positional_encodings_present = False,
             rel_layer = [[[0, 1], [0, 0]]]\<rparr>"
  have "\<not> other_positional_encodings_present ?u" by simp
  then show "\<exists>self' q' \<pi>' output' weights'.
      \<not> other_positional_encodings_present self' \<and>
      has_shape3 (1, 2, 1) q' \<and> is_permutation \<pi>' 2 \<and>
      ScaledDotProductAttention_forward self' q' q' q' = Inr (output', weights') \<and>
      ScaledDotProductAttention_forward self'
          (permute_seq \<pi>' q') (permute_seq \<pi>' q') (permute_seq \<pi>' q')
        \<noteq> Inr (permute_seq \<pi>' output', permute_keys \<pi>' (permute_seq \<pi>' weights'))"
    using shape_ex perm_swap biased_forward_example biased_not_equivariant by blast
qed

theorem attention_permutation_equivariance_witness:
  "other_positional_encodings_present (ScaledDotProductAttention_init 2 1 True (\<lambda>_ _. 0)) \<and>
   0 < d_k (ScaledDotProductAttention_init 2 1 True (\<lambda>_ _. 0)) \<and>
   has_shape3 (1, 2, 1) [[[1], [2]]] \<and> is_permutation [1, 0] 2 \<and>
   (\<exists>output weights.
      ScaledDotProductAttention_forward (ScaledDotProductAttention_init 2 1 True (\<lambda>_ _. 0))
        [[[1], [2]]] [[[1], [2]]] [[[1], [2]]] = Inr (output, weights) \<and>
      ScaledDotProductAttention_forward (ScaledDotProductAttention_init 2 1 True (\<lambda>_ _. 0))
        [[[2], [1]]] [[[2], [1]]] [[[2], [1]]]
        = Inr (permute_seq [1, 0] output, permute_keys [1, 0] (permute_seq [1, 0] weights)))"
proof -
  let ?u = "ScaledDotProductAttention_init 2 1 True (\<lambda>_ _. 0)"
  have u: "other_positional_encodings_present ?u" "0 < d_k ?u"
    by (simp_all add: ScaledDotProductAttention_init_def)
  have s: "has_shape3 (1, 2, 1) [[[1], [2]]]" by (simp add: has_shape3_def)
  have p: "permute_seq [1, 0] [[[1::real], [2]]] = [[[2], [1]]]" by (simp add: permute_seq_def)
  from attention_permutation_equivariance [OF u s s s perm_swap] u s perm_swap p
  show ?thesis by simp
qed

section \<open>The attention unit has no mask\<close>

lemma call_surplus: "3 < length args \<Longrightarrow> ScaledDotProductAttention_call self args kwargs = Inl TypeError"
  by (simp add: ScaledDotProductAttention_call_def bind_arguments_def)

lemma call_mask_keyword:
  assumes "''mask'' \<in> fst ` set kwargs"
  shows "ScaledDotProductAttention_call self args kwargs = Inl TypeError"
proof -
  let ?params = "[''query'', ''key'', ''value'']"
  let ?bound = "zip ?params args @ kwargs"
  have "''mask'' \<in> set (map fst ?bound)"
    using assms by simp
  moreover have "''mask'' \<notin> set ?params" by simp
  ultimately have "set (map fst ?bound) \<noteq> set ?params" by blast
  then have ne: "\<not> (length args \<le> length ?params \<and> distinct (map fst ?bound) \<and>
      set (map fst ?bound) = set ?params)" by blast
  have "bind_arguments ?params args kwargs = Inl TypeError"
    unfolding bind_arguments_def Let_def by (rule if_not_P) (rule ne)
  then show ?thesis
    by (simp only: ScaledDotProductAttention_call_def sum.case)
qed

lemma call_three:
  "ScaledDotProductAttention_call self [query, key, value] [] =
     ScaledDotProductAttention_forward self query key value"
  by (simp add: ScaledDotProductAttention_call_def bind_arguments_def)

lemma forward_softmax_input:
  assumes "ScaledDotProductAttention_forward self query key value = Inr (output, weights)"
  shows "\<exists>qk scaled.
      matmul query (transpose_last key) = Inr qk \<and>
      div_scalar qk (sqrt (real (d_k self))) = Inr scaled \<and>
      (if other_positional_encodings_present self then weights = softmax_last scaled
       else \<exists>biased. add3 scaled (rel_layer self) = Inr biased \<and> weights = softmax_last biased)"
  using assms unfolding ScaledDotProductAttention_forward_def
  by (auto split: sum.splits if_splits)

text \<open>
  C5, amended. The attention unit accepts no mask: \<open>forward\<close> takes exactly query, key
  and value. A call that supplies a mask, as a fourth positional argument or as the
  keyword \<^verbatim>\<open>mask\<close>, raises \<^verbatim>\<open>TypeError\<close>; a call with the three tensors is
  \<open>forward\<close>; and the weights \<open>forward\<close> returns are the softmax of the scaled scores
  themselves, with nothing added to them but the relative bias when it is active.
\<close>

theorem forward_has_no_mask:
  "(3 < length args \<or> ''mask'' \<in> fst ` set kwargs \<longrightarrow>
      ScaledDotProductAttention_call self args kwargs = Inl TypeError) \<and>
   ScaledDotProductAttention_call self [query, key, value] [] =
      ScaledDotProductAttention_forward self query key value \<and>
   (ScaledDotProductAttention_forward self query key value = Inr (output, weights) \<longrightarrow>
      (\<exists>qk scaled.
         matmul query (transpose_last key) = Inr qk \<and>
         div_scalar qk (sqrt (real (d_k self))) = Inr scaled \<and>
         (if other_positional_encodings_present self then weights = softmax_last scaled
          else \<exists>biased. add3 scaled (rel_layer self) = Inr biased \<and>
                 weights = softmax_last biased)))"
  using call_surplus call_mask_keyword call_three forward_softmax_input by blast

lemma unbiased_forward_example:
  "ScaledDotProductAttention_forward (ScaledDotProductAttention_init 2 1 True (\<lambda>_ _. 0))
      [[[0], [0]]] [[[0], [0]]] [[[0], [0]]] =
   Inr ([[[0], [0]]], [[[1 / 2, 1 / 2], [1 / 2, 1 / 2]]])"
  by (simp add: unit_eval ScaledDotProductAttention_init_def)

theorem forward_has_no_mask_witness:
  "3 < length [[[[0], [0]]], [[[0], [0]]], [[[0], [0]]], [[[0, - 1000000000], [0, 0 :: real]]]] \<and>
   ScaledDotProductAttention_call (ScaledDotProductAttention_init 2 1 True (\<lambda>_ _. 0))
      [[[[0], [0]]], [[[0], [0]]], [[[0], [0]]], [[[0, - 1000000000], [0, 0]]]] [] = Inl TypeError \<and>
   ScaledDotProductAttention_forward (ScaledDotProductAttention_init 2 1 True (\<lambda>_ _. 0))
      [[[0], [0]]] [[[0], [0]]] [[[0], [0]]] = Inr ([[[0], [0]]], [[[1 / 2, 1 / 2], [1 / 2, 1 / 2]]]) \<and>
   matmul [[[0], [0]]] (transpose_last [[[0], [0]]]) = Inr [[[0, 0], [0, 0]]] \<and>
   div_scalar [[[0, 0], [0, 0]]] (sqrt (real (d_k (ScaledDotProductAttention_init 2 1 True (\<lambda>_ _. 0)))))
     = Inr [[[0, 0], [0, 0]]] \<and>
   [[[1 / 2, 1 / 2], [1 / 2, 1 / 2]]] = softmax_last [[[0, 0], [0, 0]]]"
  using forward_has_no_mask [of "[[[[0], [0]]], [[[0], [0]]], [[[0], [0]]], [[[0, - 1000000000], [0, 0]]]]"
      "[]" "ScaledDotProductAttention_init 2 1 True (\<lambda>_ _. 0)"
      "[[[0], [0]]]" "[[[0], [0]]]" "[[[0], [0]]]" "[[[0], [0]]]" "[[[1 / 2, 1 / 2], [1 / 2, 1 / 2]]]"]
    unbiased_forward_example
  by (simp add: unit_eval ScaledDotProductAttention_init_def)

lemma unbiased_record_example:
  "ScaledDotProductAttention_forward
      \<lparr>d_k = 1, seq_len = 2, other_positional_encodings_present = True,
       rel_layer = [[[0, 0], [0, 0]]]\<rparr>
      [[[0], [0]]] [[[0], [0]]] [[[0], [0]]] =
   Inr ([[[0], [0]]], [[[1 / 2, 1 / 2], [1 / 2, 1 / 2]]])"
  by (simp add: unit_eval)

text \<open>
  C5, as stated, fails: the unit built without bias, called on zero tensors of shape
  \<open>(1, 2, 1)\<close> with a mask that puts \<open>-10\<^sup>9\<close> on the score of position \<open>(0, 1)\<close>, raises
  \<^verbatim>\<open>TypeError\<close>, whether the mask is the keyword argument \<^verbatim>\<open>mask\<close> or a fourth
  positional argument; without the mask the weight of that position is \<open>1/2\<close>.
\<close>

theorem mask_argument_counterexample:
  "ScaledDotProductAttention_call
      \<lparr>d_k = 1, seq_len = 2, other_positional_encodings_present = True,
       rel_layer = [[[0, 0], [0, 0]]]\<rparr>
      [[[[0], [0]]], [[[0], [0]]], [[[0], [0]]]] [(''mask'', [[[0, - 1000000000], [0, 0]]])]
     = Inl TypeError \<and>
   ScaledDotProductAttention_call
      \<lparr>d_k = 1, seq_len = 2, other_positional_encodings_present = True,
       rel_layer = [[[0, 0], [0, 0]]]\<rparr>
      [[[[0], [0]]], [[[0], [0]]], [[[0], [0]]], [[[0, - 1000000000], [0, 0]]]] []
     = Inl TypeError \<and>
   ScaledDotProductAttention_call
      \<lparr>d_k = 1, seq_len = 2, other_positional_encodings_present = True,
       rel_layer = [[[0, 0], [0, 0]]]\<rparr>
      [[[[0], [0]]], [[[0], [0]]], [[[0], [0]]]] []
     = Inr ([[[0], [0]]], [[[1 / 2, 1 / 2], [1 / 2, 1 / 2]]])"
  using unbiased_record_example
  by (simp add: call_mask_keyword call_surplus call_three)

section \<open>The constructors of the model\<close>

lemma collect_map:
  "collect (map f xs) = Inr ys \<Longrightarrow> length ys = length xs \<and> (\<forall>i<length xs. f (xs ! i) = Inr (ys ! i))"
proof (induction xs arbitrary: ys)
  case Nil
  then show ?case by simp
next
  case (Cons x xs)
  then obtain y ys' where y: "f x = Inr y" "collect (map f xs) = Inr ys'" "ys = y # ys'"
    by (auto split: sum.splits)
  then have "length ys' = length xs \<and> (\<forall>i<length xs. f (xs ! i) = Inr (ys' ! i))"
    using Cons.IH by blast
  then show ?case using y by (auto simp: nth_Cons split: nat.splits)
qed

lemma collect_map_ok:
  "(\<And>x. x \<in> set xs \<Longrightarrow> \<exists>y. f x = Inr y) \<Longrightarrow> \<exists>ys. collect (map f xs) = Inr ys"
proof (induction xs)
  case Nil
  then show ?case by simp
next
  case (Cons x xs)
  then obtain y ys where "f x = Inr y" "collect (map f xs) = Inr ys"
    by (metis list.set_intros(1,2))
  then show ?case by simp
qed

lemma block_init_fields:
  assumes "TransformerEncoderBlock_init d_model dff sl present pr dw = Inr blk"
  shows "attention blk = AttentionHead_init d_model sl present (rel_draw dw)"
    and "scaled_dot_attention (attention blk) =
           ScaledDotProductAttention_init sl d_model present (rel_draw dw)"
  using assms
  by (auto simp: TransformerEncoderBlock_init_def AttentionHead_init_def split: sum.splits)

lemma block_init_ok:
  "0 \<le> pr \<Longrightarrow> pr \<le> 1 \<Longrightarrow> \<exists>blk. TransformerEncoderBlock_init d_model dff sl present pr dw = Inr blk"
  by (simp add: TransformerEncoderBlock_init_def Dropout_init_def)

lemma Transformer_init_fields:
  assumes "Transformer_init input_size d_model dff num_layers sl pos_enc pr max_len dw = Inr model"
  shows "positional_encoding model = pos_enc"
    and "length (encoder_layers model) = num_layers"
    and "i < num_layers \<Longrightarrow>
           TransformerEncoderBlock_init d_model dff sl (pos_enc \<noteq> None) pr (layer_draws dw i)
             = Inr (encoder_layers model ! i)"
    and "embedding model = Linear_init input_size d_model (embedding_w dw) (embedding_b dw)"
    and "(pos_encoder model = None) = (pos_enc = None)"
proof -
  let ?f = "\<lambda>i. TransformerEncoderBlock_init d_model dff sl (if pos_enc = None then False else True)
                 pr (layer_draws dw i)"
  from assms obtain enc layers where
    e: "(case pos_enc of None \<Rightarrow> Inr None | Some ctor \<Rightarrow> map_sum id Some (ctor d_model max_len)) = Inr enc"
    and l: "collect (map ?f [0..<num_layers]) = Inr layers"
    and m: "model = \<lparr>positional_encoding = pos_enc,
                    embedding = Linear_init input_size d_model (embedding_w dw) (embedding_b dw),
                    pos_encoder = enc, encoder_layers = layers,
                    fc_out = Linear_init d_model 1 (fc_out_w dw) (fc_out_b dw)\<rparr>"
    unfolding Transformer_init_def by (auto split: sum.splits)
  have c: "length layers = num_layers" "\<forall>i<num_layers. ?f i = Inr (layers ! i)"
    using collect_map [OF l] by simp_all
  show "positional_encoding model = pos_enc" using m by simp
  show "length (encoder_layers model) = num_layers" using m c by simp
  show "i < num_layers \<Longrightarrow>
           TransformerEncoderBlock_init d_model dff sl (pos_enc \<noteq> None) pr (layer_draws dw i)
             = Inr (encoder_layers model ! i)"
    using m c by (cases "pos_enc = None") auto
  show "embedding model = Linear_init input_size d_model (embedding_w dw) (embedding_b dw)"
    using m by simp
  show "(pos_encoder model = None) = (pos_enc = None)"
    using e m by (cases pos_enc; cases "the pos_enc d_model max_len") auto
qed

lemma Transformer_init_ok:
  assumes "0 \<le> pr" "pr \<le> 1"
    and "pos_enc = None \<or> (\<exists>ctor enc. pos_enc = Some ctor \<and> ctor d_model max_len = Inr enc)"
  shows "\<exists>model. Transformer_init input_size d_model dff num_layers sl pos_enc pr max_len dw = Inr model"
proof -
  obtain layers where "collect (map (\<lambda>i. TransformerEncoderBlock_init d_model dff sl
      (if pos_enc = None then False else True) pr (layer_draws dw i)) [0..<num_layers]) = Inr layers"
    using collect_map_ok [of "[0..<num_layers]" "\<lambda>i. TransformerEncoderBlock_init d_model dff sl
      (if pos_enc = None then False else True) pr (layer_draws dw i)"] block_init_ok [OF assms(1,2)]
    by blast
  then show ?thesis using assms(3) by (auto simp: Transformer_init_def)
qed

lemma encoder_loop_raises:
  "layers \<noteq> [] \<Longrightarrow> encoder_loop layers x acc = Inl TypeError"
  by (cases layers)
    (simp_all add: TransformerEncoderBlock_forward_def AttentionHead_forward_def unpack_Ellipsis_def)

lemma forward_ignores_pos_encoder:
  "positional_encoding model = None \<Longrightarrow>
   Transformer_forward (model\<lparr>pos_encoder := e\<rparr>) x = Transformer_forward model x"
  by (simp add: Transformer_forward_def cong: sum.case_cong)

lemma forward_ignores_bias:
  "other_positional_encodings_present self \<Longrightarrow>
   ScaledDotProductAttention_forward (self\<lparr>rel_layer := r\<rparr>) q k v =
   ScaledDotProductAttention_forward self q k v"
  by (simp add: ScaledDotProductAttention_forward_def cong: sum.case_cong)

text \<open>
  C2. In a model built by \<open>Transformer_init\<close> the two positional strategies are mutually
  exclusive. With a positional-encoding constructor, the attention unit of every block
  has the flag \<open>other_positional_encodings_present\<close> set, and what it returns does not
  depend on its bias tensor. With \<open>positional_encoding = None\<close>, the unit of every
  block has the flag off and adds its own bias, the draw of that block, to the scaled
  scores, and the model's result does not depend on any \<open>pos_encoder\<close>.
  \<open>Transformer_forward\<close> applies the absolute encoding exactly when
  \<open>positional_encoding\<close> is not \<open>None\<close>, which is exactly when the flag of every unit is
  set: never both, never neither.
\<close>

theorem positional_strategies_exclusive:
  assumes "Transformer_init input_size d_model dff num_layers sl pos_enc pr max_len dw = Inr model"
    and "i < num_layers"
  shows "positional_encoding model = pos_enc \<and>
     (pos_enc \<noteq> None \<longrightarrow>
        other_positional_encodings_present
          (scaled_dot_attention (attention (encoder_layers model ! i))) \<and>
        (\<forall>r q k v.
           ScaledDotProductAttention_forward
             ((scaled_dot_attention (attention (encoder_layers model ! i)))\<lparr>rel_layer := r\<rparr>) q k v =
           ScaledDotProductAttention_forward
             (scaled_dot_attention (attention (encoder_layers model ! i))) q k v)) \<and>
     (pos_enc = None \<longrightarrow>
        \<not> other_positional_encodings_present
            (scaled_dot_attention (attention (encoder_layers model ! i))) \<and>
        (\<forall>e x. Transformer_forward (model\<lparr>pos_encoder := e\<rparr>) x = Transformer_forward model x) \<and>
        rel_layer (scaled_dot_attention (attention (encoder_layers model ! i))) =
          tab3 1 sl sl (\<lambda>_. rel_draw (layer_draws dw i)) \<and>
        (\<forall>b d d_v q k v.
           0 < d_model \<and>
           has_shape3 (b, sl, d) q \<and> has_shape3 (b, sl, d) k \<and> has_shape3 (b, sl, d_v) v \<longrightarrow>
           ScaledDotProductAttention_forward
             (scaled_dot_attention (attention (encoder_layers model ! i))) q k v =
           Inr (tab3 b sl d_v (att_output (sqrt (real d_model)) (rel_draw (layer_draws dw i)) q k v),
                tab3 b sl sl (att_weight (sqrt (real d_model)) (rel_draw (layer_draws dw i)) q k)))) \<and>
     ((positional_encoding model \<noteq> None) =
        other_positional_encodings_present
          (scaled_dot_attention (attention (encoder_layers model ! i))))"
proof -
  let ?u = "scaled_dot_attention (attention (encoder_layers model ! i))"
  have u: "?u = ScaledDotProductAttention_init sl d_model (pos_enc \<noteq> None) (rel_draw (layer_draws dw i))"
    using block_init_fields(2) [OF Transformer_init_fields(3) [OF assms]] .
  have pe: "positional_encoding model = pos_enc"
    using Transformer_init_fields(1) [OF assms(1)] .
  have flag: "other_positional_encodings_present ?u = (pos_enc \<noteq> None)"
    and rel: "rel_layer ?u = tab3 1 sl sl (\<lambda>_. rel_draw (layer_draws dw i))"
    and dk: "d_k ?u = d_model"
    unfolding u by (simp_all add: ScaledDotProductAttention_init_def)
  have ign: "ScaledDotProductAttention_forward (?u\<lparr>rel_layer := r\<rparr>) q k v =
      ScaledDotProductAttention_forward ?u q k v" if "pos_enc \<noteq> None" for r q k v
    using that flag by (intro forward_ignores_bias) simp
  have add: "ScaledDotProductAttention_forward ?u q k v =
      Inr (tab3 b sl d_v (att_output (sqrt (real d_model)) (rel_draw (layer_draws dw i)) q k v),
           tab3 b sl sl (att_weight (sqrt (real d_model)) (rel_draw (layer_draws dw i)) q k))"
    if "pos_enc = None" "has_shape3 (b, sl, d) q" "has_shape3 (b, sl, d) k" "has_shape3 (b, sl, d_v) v"
      "0 < d_model"
    for b d d_v q k v
    using forward_tab [OF that(2,3,4), of ?u "rel_draw (layer_draws dw i)"] that(1,5) flag rel dk
    by simp
  have abs: "Transformer_forward (model\<lparr>pos_encoder := e\<rparr>) x = Transformer_forward model x"
    if "pos_enc = None" for e x
    using that pe by (intro forward_ignores_pos_encoder) simp
  show ?thesis
    using pe flag rel ign add abs by (simp (no_asm_simp)) blast
qed

theorem positional_strategies_exclusive_witness:
  "(\<exists>model. Transformer_init 1 2 4 1 2 (Some PositionalEncoding_class) (1 / 10) 10 zero_draws = Inr model \<and>
      (0::nat) < 1 \<and> positional_encoding model \<noteq> None \<and>
      other_positional_encodings_present (scaled_dot_attention (attention (encoder_layers model ! 0)))) \<and>
   (\<exists>model. Transformer_init 1 2 4 1 2 None (1 / 10) 10 zero_draws = Inr model \<and>
      (0::nat) < 1 \<and> positional_encoding model = None \<and>
      \<not> other_positional_encodings_present (scaled_dot_attention (attention (encoder_layers model ! 0))))"
proof -
  have "\<exists>enc. PositionalEncoding_class 2 10 = Inr enc"
    by (simp add: PositionalEncoding_class_def PositionalEncoding_init_def div_term_def)
  then obtain m1 where m1:
    "Transformer_init 1 2 4 1 2 (Some PositionalEncoding_class) (1 / 10) 10 zero_draws = Inr m1"
    using Transformer_init_ok [of "1 / 10" "Some PositionalEncoding_class" 2 10] by force
  obtain m2 where m2: "Transformer_init 1 2 4 1 2 None (1 / 10) 10 zero_draws = Inr m2"
    using Transformer_init_ok [of "1 / 10" None] by force
  have i: "(0::nat) < 1" by simp
  have a: "positional_encoding m1 \<noteq> None \<and>
      other_positional_encodings_present (scaled_dot_attention (attention (encoder_layers m1 ! 0)))"
    using positional_strategies_exclusive [OF m1 i] by simp
  have b: "positional_encoding m2 = None \<and>
      \<not> other_positional_encodings_present (scaled_dot_attention (attention (encoder_layers m2 ! 0)))"
    using positional_strategies_exclusive [OF m2 i] by simp
  show ?thesis using m1 m2 a b by auto
qed

section \<open>The template raises where it is not filled in\<close>

text \<open>
  C7 says that \<open>TransformerEncoderBlock.forward\<close> returns
  \<open>LayerNorm2(x' + Dropout(ffn_output))\<close> with the attention weights. The block of the
  notebook raises \<^verbatim>\<open>TypeError\<close> on every input: \<open>AttentionHead.forward\<close> unpacks
  the object \<^verbatim>\<open>...\<close>.
\<close>

theorem encoder_block_forward_raises:
  "TransformerEncoderBlock_forward self x = Inl TypeError"
  by (simp add: TransformerEncoderBlock_forward_def AttentionHead_forward_def unpack_Ellipsis_def)

text \<open>
  C6 says that \<open>Transformer.forward\<close> returns the prediction and one weight matrix per
  block. A model with at least one block never returns; on an input of the right shape
  and without absolute encoding it raises \<^verbatim>\<open>TypeError\<close> in its first block. The
  witness is the model of the notebook, \<^verbatim>\<open>Transformer(1, 64, 256, 3, 40)\<close>.
\<close>

theorem transformer_forward_raises:
  assumes "Transformer_init input_size d_model dff num_layers sl pos_enc pr max_len dw = Inr model"
    and "0 < num_layers"
  shows "(\<forall>y. Transformer_forward model x \<noteq> Inr y) \<and>
         (pos_enc = None \<and> has_shape3 (b, n, input_size) x \<longrightarrow>
            Transformer_forward model x = Inl TypeError)"
proof -
  have ne: "encoder_layers model \<noteq> []"
    using Transformer_init_fields(2) [OF assms(1)] assms(2) by auto
  have 1: "\<forall>y. Transformer_forward model x \<noteq> Inr y"
    using ne Transformer_forward_weights [of model x] by (metis surj_pair)
  have 2: "Transformer_forward model x = Inl TypeError"
    if "pos_enc = None" "has_shape3 (b, n, input_size) x"
  proof -
    have "snd (snd (shape3 x)) = in_features (embedding model)"
      using has_shape3_shape3 [OF that(2)] Transformer_init_fields(4) [OF assms(1)]
      by (simp add: Linear_init_def)
    then have "\<exists>e. Linear_forward3 (embedding model) x = Inr e"
      by (simp add: Linear_forward3_def)
    moreover have "positional_encoding model = None"
      using Transformer_init_fields(1) [OF assms(1)] that(1) by simp
    ultimately show ?thesis
      using encoder_loop_raises [OF ne] by (auto simp: Transformer_forward_def)
  qed
  show ?thesis using 1 2 by blast
qed

theorem transformer_forward_raises_witness:
  "\<exists>model. Transformer_init 1 64 256 3 40 None (1 / 10) 5000 zero_draws = Inr model \<and>
     (0::nat) < 3 \<and> has_shape3 (1, 40, 1) (tab3 1 40 1 (\<lambda>_ _ _. 0)) \<and>
     Transformer_forward model (tab3 1 40 1 (\<lambda>_ _ _. 0)) = Inl TypeError"
proof -
  obtain model where m: "Transformer_init 1 64 256 3 40 None (1 / 10) 5000 zero_draws = Inr model"
    using Transformer_init_ok [of "1 / 10" None] by force
  have s: "has_shape3 (1, 40, 1) (tab3 1 40 1 (\<lambda>_ _ _. 0))" by (simp add: has_shape3_tab3)
  have "(0::nat) < 3" by simp
  from transformer_forward_raises [OF m this, of "tab3 1 40 1 (\<lambda>_ _ _. 0)" 1 40] s m
  show ?thesis by (intro exI [of _ model]) simp
qed

text \<open>
  C9 says what the sequences of \<open>TimeSeriesDataset\<close> look like and that
  \<open>__getitem__\<close> returns a series with its target. The constructor raises
  \<^verbatim>\<open>TypeError\<close> on its first sample, and \<open>__getitem__\<close> returns the object
  \<^verbatim>\<open>...\<close>.
\<close>

theorem dataset_init_raises:
  "TimeSeriesDataset_init 40 1 = Inl TypeError \<and>
   (\<forall>self idx. TimeSeriesDataset_getitem self idx = EllipsisItem)"
proof -
  have "sample_loop 40 (Suc 0) [] = Inl TypeError"
    by (simp add: make_time_series_def iadd_Ellipsis_def)
  then show ?thesis
    by (simp add: TimeSeriesDataset_init_def TimeSeriesDataset_getitem_def)
qed

section \<open>The absolute positional encoding adds the row of the batch index\<close>

lemma div_term_2: "div_term 2 = [1]"
  by (simp add: div_term_def)

lemma table_2_2: "sinusoid_table 2 2 = [[0, 1], [sin 1, cos 1]]"
proof -
  have "[0..<2] = [0, Suc 0]" by (simp add: upt_conv_Cons eval_nat_numeral)
  then show ?thesis by (simp add: sinusoid_table_def tab2_def div_term_2)
qed

lemma pe_init_2_2: "PositionalEncoding_init 2 2 = Inr \<lparr>pe = [[[0, 1]], [[sin 1, cos 1]]]\<rparr>"
  by (simp add: PositionalEncoding_init_def table_2_2 div_term_2)

text \<open>
  On a batch-first input of shape \<open>(B, S, d_model)\<close> with \<open>B \<le> max_len\<close> the forward pass
  adds to the entry at \<open>(b, p, c)\<close> the table entry \<open>(b, c)\<close>: the row is chosen by the
  batch index \<open>b\<close>, the position \<open>p\<close> plays no part.
\<close>

lemma add3_tab3_same:
  assumes "0 < b" "0 < n"
  shows "add3 (tab3 b n d f) (tab3 b n d g) = Inr (tab3 b n d (\<lambda>i j c. f i j c + g i j c))"
proof -
  have "bzip (bzip (bzip (+))) (tab3 b n d f) (tab3 b n d g) = tab3 b n d (\<lambda>i j c. f i j c + g i j c)"
    by (simp add: bzip_def tab3_def tab2_def map2_upt)
  then show ?thesis
    using assms by (simp add: add3_def shape3_tab3 broadcastable_def)
qed

lemma repeated_rows:
  assumes "B \<le> max_len"
  shows "map (\<lambda>m. concat (replicate S m)) (take B (map (\<lambda>row. [row]) (tab2 max_len d f))) =
     tab3 B S d (\<lambda>b p c. f b c)"
proof -
  have "take B (map (\<lambda>row. [row]) (tab2 max_len d f)) = map (\<lambda>b. [map (f b) [0..<d]]) [0..<B]"
    using assms by (simp add: tab2_def take_map min_def)
  moreover have "concat (replicate S [r]) = map (\<lambda>p. r) [0..<S]" for r :: vec
  proof -
    have "concat (replicate S [r]) = replicate S r" by (induction S) simp_all
    also have "\<dots> = map (\<lambda>p. r) [0..<S]" by (simp add: map_replicate_const)
    finally show ?thesis .
  qed
  ultimately show ?thesis
    by (simp add: tab3_def tab2_def)
qed

lemma positional_forward_adds_row_of_batch_index:
  assumes init: "PositionalEncoding_init d_model max_len = Inr self"
    and x: "has_shape3 (B, S, d_model) x" and B: "B \<le> max_len"
  shows "PositionalEncoding_forward self x =
     Inr (tab3 B S d_model (\<lambda>b p c. x ! b ! p ! c + sinusoid_table d_model max_len ! b ! c))"
proof -
  let ?f = "\<lambda>pos c. if even c then sin (real pos * div_term d_model ! (c div 2))
                 else cos (real pos * div_term d_model ! (c div 2))"
  have pos: "0 < B" "0 < S" using x by (auto simp: has_shape3_def)
  have pe: "pe self = map (\<lambda>row. [row]) (tab2 max_len d_model ?f)"
    using init by (auto simp: PositionalEncoding_init_def sinusoid_table_def split: if_splits)
  have sh: "shape3 x = (B, S, d_model)" by (rule has_shape3_shape3 [OF x])
  have "PositionalEncoding_forward self x = add3 x (tab3 B S d_model (\<lambda>b p c. ?f b c))"
    by (simp add: PositionalEncoding_forward_def sh pe repeated_rows [OF B])
  also have "\<dots> = add3 (tab3 B S d_model (\<lambda>b p c. x ! b ! p ! c)) (tab3 B S d_model (\<lambda>b p c. ?f b c))"
    by (simp only: tab3_nth_id [OF x])
  also have "\<dots> = Inr (tab3 B S d_model (\<lambda>b p c. x ! b ! p ! c + ?f b c))"
    by (rule add3_tab3_same [OF pos])
  also have "tab3 B S d_model (\<lambda>b p c. x ! b ! p ! c + ?f b c) =
      tab3 B S d_model (\<lambda>b p c. x ! b ! p ! c + sinusoid_table d_model max_len ! b ! c)"
    using B by (intro tab3_cong) (simp add: sinusoid_table_def)
  finally show ?thesis .
qed

text \<open>
  C3 says that \<open>PositionalEncoding.forward\<close> adds table row \<open>p\<close> at sequence position
  \<open>p\<close> of every batch element. On a zero input of shape \<open>(2, 2, 2)\<close>, with
  \<open>d_model = 2\<close>, the code adds table row \<open>b\<close> to every position of batch element \<open>b\<close>:
  the result differs from what the specification describes.
\<close>

theorem positional_encoding_adds_batch_row:
  "PositionalEncoding_init 2 2 = Inr \<lparr>pe = [[[0, 1]], [[sin 1, cos 1]]]\<rparr> \<and>
   PositionalEncoding_forward \<lparr>pe = [[[0, 1]], [[sin 1, cos 1]]]\<rparr>
       [[[0, 0], [0, 0]], [[0, 0], [0, 0]]]
     = Inr [[[0, 1], [0, 1]], [[sin 1, cos 1], [sin 1, cos 1]]] \<and>
   spec_add_positions (sinusoid_table 2 2) [[[0, 0], [0, 0]], [[0, 0], [0, 0]]]
     = [[[0, 1], [sin 1, cos 1]], [[0, 1], [sin 1, cos 1]]] \<and>
   [[[0, 1], [0, 1]], [[sin 1, cos 1], [sin 1, cos 1]]]
     \<noteq> [[[0, 1], [sin 1, cos 1]], [[0, 1], [sin 1, cos (1::real)]]]"
proof -
  have "0 < sin (1::real)" by (intro sin_gt_zero_02) simp_all
  then have ne: "sin (1::real) \<noteq> 0" by simp
  have f: "PositionalEncoding_forward \<lparr>pe = [[[0, 1]], [[sin 1, cos 1]]]\<rparr>
       [[[0, 0], [0, 0]], [[0, 0], [0, 0]]]
     = Inr [[[0, 1], [0, 1]], [[sin 1, cos 1], [sin 1, cos 1]]]"
    by (simp add: PositionalEncoding_forward_def add3_def bzip_def broadcastable_def eval_nat_numeral)
  have s: "spec_add_positions (sinusoid_table 2 2) [[[0, 0], [0, 0]], [[0, 0], [0, 0]]]
     = [[[0, 1], [sin 1, cos 1]], [[0, 1], [sin 1, cos 1]]]"
    by (simp add: spec_add_positions_def table_2_2)
  show ?thesis using pe_init_2_2 f s ne by simp
qed

section \<open>The relative bias is not a parameter\<close>

lemma resolve_step_plain:
  "resolve path a = Some (PlainTensor t g) \<Longrightarrow>
   resolve path (optimizer_step upd pre a) = Some (PlainTensor t g)"
proof (induction path a arbitrary: pre rule: resolve.induct)
  case (1 a)
  then show ?case by simp
next
  case (2 k ks attrs)
  then obtain a where a: "map_of attrs k = Some a" "resolve ks a = Some (PlainTensor t g)"
    by (auto split: option.splits)
  have "map_of (map (\<lambda>(k, a). (k, optimizer_step upd (pre @ [k]) a)) attrs) k
      = Some (optimizer_step upd (pre @ [k]) a)"
    using a(1) by (induction attrs) (auto split: if_splits)
  then show ?case using 2 a by simp
qed simp_all

lemma map_of_module_list:
  "i < length xs \<Longrightarrow>
   map_of (map (\<lambda>(j, x). (Index j, f x)) (enumerate n xs)) (Index (n + i)) = Some (f (xs ! i))"
proof (induction xs arbitrary: n i)
  case Nil
  then show ?case by simp
next
  case (Cons x xs)
  show ?case
  proof (cases i)
    case 0
    then show ?thesis by simp
  next
    case (Suc j)
    then have "j < length xs" using Cons.prems by simp
    from Cons.IH [OF this, of "Suc n"] Suc show ?thesis by simp
  qed
qed

lemma unit_has_no_parameters:
  "named_parameters (Submodule (ScaledDotProductAttention_attrs u)) = []"
  "state_dict (Submodule (ScaledDotProductAttention_attrs u)) = []"
  by (simp_all add: ScaledDotProductAttention_attrs_def)

lemma head_has_no_parameters:
  "named_parameters (Submodule (AttentionHead_attrs h)) = []"
  "state_dict (Submodule (AttentionHead_attrs h)) = []"
  by (simp_all add: AttentionHead_attrs_def ScaledDotProductAttention_attrs_def pyval_attr_def
      split: pyval.splits)

lemma block_parameter_paths:
  "(Name ''attention'' # rest, t) \<notin> set (named_parameters (Submodule (TransformerEncoderBlock_attrs blk)))"
  "(Name ''attention'' # rest, t) \<notin> set (state_dict (Submodule (TransformerEncoderBlock_attrs blk)))"
  by (auto simp: TransformerEncoderBlock_attrs_def AttentionHead_attrs_def
      ScaledDotProductAttention_attrs_def Linear_attrs_def
      LayerNorm_attrs_def Dropout_attrs_def pyval_attr_def split: pyval.splits)

lemma named_parameters_deep:
  assumes "(k # k' # rest, t) \<in> set (named_parameters (Submodule attrs))"
  shows "\<exists>sub. (k, Submodule sub) \<in> set attrs \<and> (k' # rest, t) \<in> set (named_parameters (Submodule sub))"
  using assms
  by (subst (asm) named_parameters.simps(1))
     (auto simp del: named_parameters.simps split: attr.splits)

lemma state_dict_deep:
  assumes "(k # k' # rest, t) \<in> set (state_dict (Submodule attrs))"
  shows "\<exists>sub. (k, Submodule sub) \<in> set attrs \<and> (k' # rest, t) \<in> set (state_dict (Submodule sub))"
  using assms
  apply (subst (asm) state_dict.simps(1))
  apply (auto simp del: state_dict.simps split: attr.splits)
  apply (metis attr.exhaust)
  done

lemma encoder_layers_attr:
  assumes "(Name ''encoder_layers'', Submodule sub) \<in> set (Transformer_attrs model)"
  shows "sub = map (\<lambda>(i, layer). (Index i, Submodule (TransformerEncoderBlock_attrs layer)))
                 (enumerate 0 (encoder_layers model))"
  using assms by (auto simp: Transformer_attrs_def split: option.splits)

lemma module_list_item:
  assumes "(Index i, Submodule sub) \<in>
      set (map (\<lambda>(i, layer). (Index i, Submodule (TransformerEncoderBlock_attrs layer))) (enumerate 0 layers))"
  shows "\<exists>layer. sub = TransformerEncoderBlock_attrs layer"
  using assms by auto

lemma model_parameter_paths:
  "(Name ''encoder_layers'' # Index i # Name ''attention'' # rest, t)
     \<notin> set (named_parameters (Submodule (Transformer_attrs model)))"
  "(Name ''encoder_layers'' # Index i # Name ''attention'' # rest, t)
     \<notin> set (state_dict (Submodule (Transformer_attrs model)))"
proof -
  show "(Name ''encoder_layers'' # Index i # Name ''attention'' # rest, t)
     \<notin> set (named_parameters (Submodule (Transformer_attrs model)))"
  proof
    assume "(Name ''encoder_layers'' # Index i # Name ''attention'' # rest, t)
       \<in> set (named_parameters (Submodule (Transformer_attrs model)))"
    then obtain sub where "(Name ''encoder_layers'', Submodule sub) \<in> set (Transformer_attrs model)"
      and "(Index i # Name ''attention'' # rest, t) \<in> set (named_parameters (Submodule sub))"
      using named_parameters_deep by blast
    then have "(Index i # Name ''attention'' # rest, t) \<in> set (named_parameters (Submodule
        (map (\<lambda>(i, layer). (Index i, Submodule (TransformerEncoderBlock_attrs layer)))
           (enumerate 0 (encoder_layers model)))))"
      using encoder_layers_attr by blast
    then obtain sub' where "(Index i, Submodule sub') \<in>
        set (map (\<lambda>(i, layer). (Index i, Submodule (TransformerEncoderBlock_attrs layer)))
           (enumerate 0 (encoder_layers model)))"
      and "(Name ''attention'' # rest, t) \<in> set (named_parameters (Submodule sub'))"
      using named_parameters_deep by blast
    then show False using module_list_item block_parameter_paths(1) by blast
  qed
  show "(Name ''encoder_layers'' # Index i # Name ''attention'' # rest, t)
     \<notin> set (state_dict (Submodule (Transformer_attrs model)))"
  proof
    assume "(Name ''encoder_layers'' # Index i # Name ''attention'' # rest, t)
       \<in> set (state_dict (Submodule (Transformer_attrs model)))"
    then obtain sub where "(Name ''encoder_layers'', Submodule sub) \<in> set (Transformer_attrs model)"
      and "(Index i # Name ''attention'' # rest, t) \<in> set (state_dict (Submodule sub))"
      using state_dict_deep by blast
    then have "(Index i # Name ''attention'' # rest, t) \<in> set (state_dict (Submodule
        (map (\<lambda>(i, layer). (Index i, Submodule (TransformerEncoderBlock_attrs layer)))
           (enumerate 0 (encoder_layers model)))))"
      using encoder_layers_attr by blast
    then obtain sub' where "(Index i, Submodule sub') \<in>
        set (map (\<lambda>(i, layer). (Index i, Submodule (TransformerEncoderBlock_attrs layer)))
           (enumerate 0 (encoder_layers model)))"
      and "(Name ''attention'' # rest, t) \<in> set (state_dict (Submodule sub'))"
      using state_dict_deep by blast
    then show False using module_list_item block_parameter_paths(2) by blast
  qed
qed

lemma resolve_rel_layer:
  assumes "i < length (encoder_layers model)"
  shows "resolve (rel_layer_path i) (Submodule (Transformer_attrs model)) =
     Some (PlainTensor (T3 (rel_layer (scaled_dot_attention (attention (encoder_layers model ! i))))) True)"
proof -
  have "map_of (map (\<lambda>(j, layer). (Index j, Submodule (TransformerEncoderBlock_attrs layer)))
           (enumerate 0 (encoder_layers model))) (Index i) =
        Some (Submodule (TransformerEncoderBlock_attrs (encoder_layers model ! i)))"
    using map_of_module_list [OF assms, of "\<lambda>layer. Submodule (TransformerEncoderBlock_attrs layer)" 0]
    by simp
  then show ?thesis
    by (simp add: rel_layer_path_def Transformer_attrs_def TransformerEncoderBlock_attrs_def
        AttentionHead_attrs_def ScaledDotProductAttention_attrs_def split: option.splits)
qed

text \<open>
  C10. The relative bias of every attention unit is the tensor drawn by
  \<^verbatim>\<open>torch.randn(1, seq_len, seq_len, requires_grad=True)\<close>, held as a plain attribute:
  a unit has no parameter and no buffer. In a model built by \<open>Transformer_init\<close> the
  path of the bias of block \<open>i\<close> leads to that plain tensor, it is no key of
  \<open>named_parameters\<close> and no key of the saved state, and a training step that updates
  the parameters leaves the bias at its initial draw.
\<close>

theorem relative_bias_is_not_a_parameter:
  assumes "Transformer_init input_size d_model dff num_layers sl pos_enc pr max_len dw = Inr model"
    and "i < num_layers"
  shows "(\<forall>sl' dk present g.
            rel_layer (ScaledDotProductAttention_init sl' dk present g) = tab3 1 sl' sl' (\<lambda>_. g) \<and>
            map_of (ScaledDotProductAttention_attrs (ScaledDotProductAttention_init sl' dk present g))
                (Name ''rel_layer'') = Some (PlainTensor (T3 (tab3 1 sl' sl' (\<lambda>_. g))) True) \<and>
            named_parameters (Submodule (ScaledDotProductAttention_attrs
                (ScaledDotProductAttention_init sl' dk present g))) = [] \<and>
            state_dict (Submodule (ScaledDotProductAttention_attrs
                (ScaledDotProductAttention_init sl' dk present g))) = []) \<and>
         rel_layer (scaled_dot_attention (attention (encoder_layers model ! i))) =
           tab3 1 sl sl (\<lambda>_. rel_draw (layer_draws dw i)) \<and>
         resolve (rel_layer_path i) (Submodule (Transformer_attrs model)) =
           Some (PlainTensor (T3 (tab3 1 sl sl (\<lambda>_. rel_draw (layer_draws dw i)))) True) \<and>
         rel_layer_path i \<notin> fst ` set (named_parameters (Submodule (Transformer_attrs model))) \<and>
         rel_layer_path i \<notin> fst ` set (state_dict (Submodule (Transformer_attrs model))) \<and>
         (\<forall>upd. resolve (rel_layer_path i)
                  (optimizer_step upd [] (Submodule (Transformer_attrs model))) =
                Some (PlainTensor (T3 (tab3 1 sl sl (\<lambda>_. rel_draw (layer_draws dw i)))) True))"
proof -
  let ?u = "scaled_dot_attention (attention (encoder_layers model ! i))"
  have "?u = ScaledDotProductAttention_init sl d_model (pos_enc \<noteq> None) (rel_draw (layer_draws dw i))"
    using block_init_fields(2) [OF Transformer_init_fields(3) [OF assms]] .
  then have rel: "rel_layer ?u = tab3 1 sl sl (\<lambda>_. rel_draw (layer_draws dw i))"
    by (simp add: ScaledDotProductAttention_init_def)
  have len: "i < length (encoder_layers model)"
    using Transformer_init_fields(2) [OF assms(1)] assms(2) by simp
  have res: "resolve (rel_layer_path i) (Submodule (Transformer_attrs model)) =
      Some (PlainTensor (T3 (tab3 1 sl sl (\<lambda>_. rel_draw (layer_draws dw i)))) True)"
    using resolve_rel_layer [OF len] rel by simp
  have np: "rel_layer_path i \<notin> fst ` set (named_parameters (Submodule (Transformer_attrs model)))"
    using model_parameter_paths(1) [of i _ _ model]
    by (auto simp: rel_layer_path_def simp del: named_parameters.simps)
  have sd: "rel_layer_path i \<notin> fst ` set (state_dict (Submodule (Transformer_attrs model)))"
    using model_parameter_paths(2) [of i _ _ model]
    by (auto simp: rel_layer_path_def simp del: state_dict.simps)
  have unit: "rel_layer (ScaledDotProductAttention_init sl' dk present g) = tab3 1 sl' sl' (\<lambda>_. g) \<and>
      map_of (ScaledDotProductAttention_attrs (ScaledDotProductAttention_init sl' dk present g))
          (Name ''rel_layer'') = Some (PlainTensor (T3 (tab3 1 sl' sl' (\<lambda>_. g))) True) \<and>
      named_parameters (Submodule (ScaledDotProductAttention_attrs
          (ScaledDotProductAttention_init sl' dk present g))) = [] \<and>
      state_dict (Submodule (ScaledDotProductAttention_attrs
          (ScaledDotProductAttention_init sl' dk present g))) = []" for sl' dk present g
    by (simp add: ScaledDotProductAttention_attrs_def ScaledDotProductAttention_init_def)
  show ?thesis
    using unit rel res np sd resolve_step_plain [OF res] by blast
qed

theorem relative_bias_is_not_a_parameter_witness:
  "\<exists>model. Transformer_init 1 64 256 3 40 None (1 / 10) 5000 zero_draws = Inr model \<and>
     (2::nat) < 3 \<and>
     resolve (rel_layer_path 2) (Submodule (Transformer_attrs model)) =
       Some (PlainTensor (T3 (tab3 1 40 40 (\<lambda>_ _ _. 0))) True) \<and>
     rel_layer_path 2 \<notin> fst ` set (named_parameters (Submodule (Transformer_attrs model))) \<and>
     rel_layer_path 2 \<notin> fst ` set (state_dict (Submodule (Transformer_attrs model)))"
proof -
  obtain model where m: "Transformer_init 1 64 256 3 40 None (1 / 10) 5000 zero_draws = Inr model"
    using Transformer_init_ok [of "1 / 10" None] by force
  have "(2::nat) < 3" by simp
  from relative_bias_is_not_a_parameter [OF m this] m
  show ?thesis
    by (intro exI [of _ model])
      (simp add: zero_draws_def zero_block_draws_def
        del: named_parameters.simps state_dict.simps resolve.simps optimizer_step.simps)
qed

end
